theory Spec2Isabelle
  imports Complex_Main "HOL-Library.AList"
begin

section \<open>Errors, numbers and arrays\<close>

text \<open>
  Every exception of the Python source is a value of \<open>error\<close>; a function that can raise
  returns \<open>error + 'a\<close> with \<open>Inl\<close> for the exception. \<open>OtherError\<close> stands for any
  exception raised inside a library call.
\<close>

datatype error =
  UnboundLocalError | IndexError | ValueError | KeyError | AttributeError | TypeError | OtherError

definition on_ok :: "error + 'a \<Rightarrow> ('a \<Rightarrow> error + 'b) \<Rightarrow> error + 'b" where
  "on_ok m f = (case m of Inl e \<Rightarrow> Inl e | Inr x \<Rightarrow> f x)"

text \<open>
  A float64 cell. Finite values are exact reals (rounding and overflow are not modelled);
  \<open>NaN\<close> is also the missing-value marker of a pandas float Series.
\<close>

datatype float64 = NaN | NInf | Fin real | PInf

text \<open>
  A numpy array of float64 by number of dimensions; a 2-D array is the list of its rows,
  all of one length. \<open>ArrN n\<close> is an array of any other dimension \<open>n\<close>.
\<close>

datatype ndarray = Arr0 float64 | Arr1 "float64 list" | Arr2 "float64 list list" | ArrN nat

text \<open>\<open>a[idx]\<close> with an integer array \<open>idx\<close> (one or two dimensional) on the first axis.\<close>

definition take_rows :: "'a list \<Rightarrow> nat list \<Rightarrow> error + 'a list" where
  "take_rows xs idx =
     (if list_all (\<lambda>i. i < length xs) idx then Inr (map (\<lambda>i. xs ! i) idx) else Inl IndexError)"

definition take_rows2 :: "'a list \<Rightarrow> nat list list \<Rightarrow> error + 'a list list" where
  "take_rows2 xs idx =
     (if list_all (list_all (\<lambda>i. i < length xs)) idx
      then Inr (map (map (\<lambda>i. xs ! i)) idx) else Inl IndexError)"

text \<open>\<open>np.mean\<close> and \<open>np.median\<close> of a one-dimensional array of finite values.\<close>

definition np_mean :: "real list \<Rightarrow> float64" where
  "np_mean xs = (if xs = [] then NaN else Fin (sum_list xs / real (length xs)))"

definition np_median :: "real list \<Rightarrow> float64" where
  "np_median xs =
     (let s = sort xs; n = length xs in
      if n = 0 then NaN
      else if n mod 2 = 1 then Fin (s ! (n div 2))
      else Fin ((s ! (n div 2 - 1) + s ! (n div 2)) / 2))"

text \<open>Float division of finite values: division by zero gives an infinity or NaN.\<close>

definition fdiv :: "real \<Rightarrow> real \<Rightarrow> float64" where
  "fdiv a b =
     (if b = 0 then (if a = 0 then NaN else if 0 < a then PInf else NInf) else Fin (a / b))"

text \<open>\<open>np.argsort\<close> of a one-dimensional array (ties keep their order).\<close>

definition argsort :: "real list \<Rightarrow> nat list" where
  "argsort xs = map snd (sort_key fst (zip xs [0..<length xs]))"

section \<open>KNNRegressor\<close>

text \<open>
  The \<open>weights\<close> parameter of \<open>KNeighborsRegressor\<close>: \<open>None\<close> or \<open>'uniform'\<close>,
  \<open>'distance'\<close>, or a callable from the distance array to a weight array of the same shape.
\<close>

datatype weights_cfg = Uniform | Distance | Callable "real list list \<Rightarrow> real list list"

text \<open>
  The fitted target array \<open>self._y\<close>: one-dimensional or two-dimensional. Targets,
  distances and weights are finite (sklearn validates them), so they are reals here.
\<close>

datatype yarr = Y1 "real list" | Y2 "real list list"

record knn_regressor =
  n_neighbors :: nat
  weights :: weights_cfg
  self_y :: yarr

text \<open>
  The library calls of \<open>predict\<close> whose code is sklearn's: \<open>check_array\<close> and
  \<open>self.kneighbors\<close>, which returns the distance and index arrays (one row per query).
\<close>

record 'x knn_lib =
  check_array :: "'x list \<Rightarrow> error + 'x list"
  kneighbors :: "knn_regressor \<Rightarrow> 'x list \<Rightarrow> error + (real list list \<times> nat list list)"

text \<open>
  sklearn's \<open>_get_weights\<close>: \<open>None\<close> for uniform weights; for \<open>'distance'\<close> the inverse
  distances, where a row with a zero distance gets weight 1 at the zeros and 0 elsewhere.
\<close>

definition get_weights :: "real list list \<Rightarrow> weights_cfg \<Rightarrow> real list list option" where
  "get_weights neigh_dist w =
     (case w of
        Uniform \<Rightarrow> None
      | Distance \<Rightarrow>
          Some (map (\<lambda>row. if list_ex (\<lambda>d. d = 0) row
                            then map (\<lambda>d. if d = 0 then 1 else 0) row
                            else map (\<lambda>d. 1 / d) row) neigh_dist)
      | Callable f \<Rightarrow> Some (f neigh_dist))"

text \<open>\<open>_y.reshape((-1, 1))\<close> when \<open>_y\<close> is one-dimensional.\<close>

definition y_2d :: "yarr \<Rightarrow> real list list" where
  "y_2d y = (case y of Y1 v \<Rightarrow> map (\<lambda>a. [a]) v | Y2 m \<Rightarrow> m)"

definition y_ndim :: "yarr \<Rightarrow> nat" where
  "y_ndim y = (case y of Y1 v \<Rightarrow> 1 | Y2 m \<Rightarrow> 2)"

text \<open>\<open>_y.shape[1]\<close> of the two-dimensional target array.\<close>

definition y_ncols :: "yarr \<Rightarrow> nat" where
  "y_ncols y = (case y of Y1 v \<Rightarrow> 1 | Y2 m \<Rightarrow> (case m of [] \<Rightarrow> 0 | r # rs \<Rightarrow> length r))"

text \<open>Column \<open>j\<close> of each block of neighbour rows: the reduction axis of \<open>axis=1\<close>.\<close>

definition axis1_cols :: "nat \<Rightarrow> real list list \<Rightarrow> real list list" where
  "axis1_cols d block = map (\<lambda>j. map (\<lambda>r. r ! j) block) [0..<d]"

text \<open>
  The weighted branch: \<open>denom = np.sum(weights, axis=1)\<close> and, for each output column
  \<open>j\<close>, \<open>num = np.sum(_y[neigh_ind, j] * weights, axis=1)\<close>, \<open>y_pred[:, j] = num / denom\<close>.
  The product and the column assignment need arrays of one shape.
\<close>

definition weighted_pred ::
  "nat \<Rightarrow> real list list \<Rightarrow> nat \<Rightarrow> nat list list \<Rightarrow> real list list
     \<Rightarrow> error + float64 list list" where
  "weighted_pred d y2 q neigh_ind w =
     (let denom = map sum_list w in
      if d = 0 then Inr (replicate q [])
      else on_ok (take_rows2 y2 neigh_ind) (\<lambda>yn.
        if map length w \<noteq> map length neigh_ind \<or> q \<noteq> length neigh_ind then Inl ValueError
        else Inr (map (\<lambda>i. map (\<lambda>j.
                    fdiv (sum_list (map (\<lambda>(r, wt). r ! j * wt) (zip (yn ! i) (w ! i))))
                         (denom ! i)) [0..<d])
                  [0..<q])))"

text \<open>
  The block between "Begin modification" and "End modification": \<open>y_pred\<close> is assigned
  in every branch but the one with uniform weights and an unknown \<open>pred_calc\<close>, where it
  stays unbound (\<open>None\<close>).
\<close>

definition knn_aggregate ::
  "knn_regressor \<Rightarrow> real list list \<Rightarrow> nat list list \<Rightarrow> real list list option \<Rightarrow> string
     \<Rightarrow> error + float64 list list option" where
  "knn_aggregate self neigh_dist neigh_ind wts pred_calc =
     (let y2 = y_2d (self_y self); d = y_ncols (self_y self) in
      case wts of
        None \<Rightarrow>
          if pred_calc = ''mean''
          then on_ok (take_rows2 y2 neigh_ind)
                 (\<lambda>yn. Inr (Some (map (\<lambda>block. map np_mean (axis1_cols d block)) yn)))
          else if pred_calc = ''median''
          then on_ok (take_rows2 y2 neigh_ind)
                 (\<lambda>yn. Inr (Some (map (\<lambda>block. map np_median (axis1_cols d block)) yn)))
          else Inr None
      | Some w \<Rightarrow>
          on_ok (weighted_pred d y2 (length neigh_dist) neigh_ind w) (\<lambda>p. Inr (Some p)))"

text \<open>Reading the local variable \<open>y_pred\<close>.\<close>

definition read_local :: "'a option \<Rightarrow> error + 'a" where
  "read_local v = (case v of None \<Rightarrow> Inl UnboundLocalError | Some a \<Rightarrow> Inr a)"

text \<open>\<open>a[:, m]\<close> on the second axis.\<close>

definition select_axis1 :: "'a list list \<Rightarrow> nat \<Rightarrow> error + 'a list" where
  "select_axis1 rows m =
     (if list_all (\<lambda>r. m < length r) rows then Inr (map (\<lambda>r. r ! m) rows) else Inl IndexError)"

text \<open>The loop \<open>for ni, mi in zip(neigh_ind, median_idx): nearest_index.append(ni[mi])\<close>.\<close>

fun nearest_loop :: "nat list list \<Rightarrow> nat list list \<Rightarrow> error + nat list list" where
  "nearest_loop (ni # nis) (mi # mis) =
     on_ok (take_rows ni mi) (\<lambda>v. on_ok (nearest_loop nis mis) (\<lambda>vs. Inr (v # vs)))"
| "nearest_loop _ _ = Inr []"

text \<open>
  The \<open>return_match_index\<close> block: \<open>d = _y[neigh_ind]\<close> has one block per query, one row
  per neighbour and one cell per output; \<open>np.argsort(d)\<close> sorts along the last axis.
\<close>

definition match_index :: "knn_regressor \<Rightarrow> nat list list \<Rightarrow> error + nat list list" where
  "match_index self neigh_ind =
     on_ok (take_rows2 (y_2d (self_y self)) neigh_ind) (\<lambda>d.
       let middle_idx = n_neighbors self div 2 in
       on_ok (select_axis1 (map (map argsort) d) middle_idx) (\<lambda>median_idx.
         nearest_loop neigh_ind median_idx))"

datatype knn_result = Pred ndarray | PredMatch ndarray "nat list list" "nat list list"

definition y_pred_of :: "knn_result \<Rightarrow> ndarray" where
  "y_pred_of r = (case r of Pred p \<Rightarrow> p | PredMatch p m n \<Rightarrow> p)"

definition predict ::
  "'x knn_lib \<Rightarrow> knn_regressor \<Rightarrow> 'x list \<Rightarrow> bool \<Rightarrow> string \<Rightarrow> error + knn_result" where
  "predict lib self X0 return_match_index pred_calc =
     on_ok (check_array lib X0) (\<lambda>X.
     on_ok (kneighbors lib self X) (\<lambda>(neigh_dist, neigh_ind).
     on_ok (knn_aggregate self neigh_dist neigh_ind
              (get_weights neigh_dist (weights self)) pred_calc)
       (\<lambda>y_pred0.
     on_ok (if y_ndim (self_y self) = 1
            then on_ok (read_local y_pred0) (\<lambda>p. Inr (Some (Arr1 (concat p))))
            else Inr (map_option Arr2 y_pred0)) (\<lambda>y_pred.
     if return_match_index
     then on_ok (match_index self neigh_ind) (\<lambda>nearest_matched_index.
          on_ok (read_local y_pred) (\<lambda>p. Inr (PredMatch p nearest_matched_index neigh_ind)))
     else on_ok (read_local y_pred) (\<lambda>p. Inr (Pred p))))))"


subsection \<open>A fitted regressor on three training points\<close>

definition demo_lib :: "nat knn_lib" where
  "demo_lib = \<lparr> check_array = (\<lambda>X. Inr X),
                kneighbors = (\<lambda>self X. Inr (map (\<lambda>x. [1, 2, 3]) X, map (\<lambda>x. [0, 1, 2]) X)) \<rparr>"

definition demo_knn :: knn_regressor where
  "demo_knn = \<lparr> n_neighbors = 3, weights = Uniform, self_y = Y1 [10, 30, 20] \<rparr>"



text \<open>
  The specification's match index for a one-dimensional target array \<open>v\<close>: among the
  neighbours \<open>inds\<close> of a query, the training index of the neighbour whose target is the
  positional median of the neighbours' targets.
\<close>

definition median_neighbor_spec :: "real list \<Rightarrow> nat list \<Rightarrow> nat" where
  "median_neighbor_spec v inds = inds ! (argsort (map (\<lambda>i. v ! i) inds) ! (length inds div 2))"

section \<open>Cross-validation: library calls and shared helpers\<close>

text \<open>
  The \<open>cv\<close> argument of the constructors and the splitter objects built from it. A
  splitter passed by the caller is a value of the type \<open>'c\<close>.
\<close>

datatype 'c cv_param = CvInt int | CvSplitter 'c

datatype 'c splitter =
  GroupKFold int | StratifiedKFold int | KFold int bool int | TimeSeriesSplit int | Given 'c

text \<open>sklearn's k-fold constructors reject \<open>n_splits \<le> 1\<close>.\<close>

definition new_splitter :: "int \<Rightarrow> 'c splitter \<Rightarrow> error + 'c splitter" where
  "new_splitter n s = (if n \<le> 1 then Inl ValueError else Inr s)"

text \<open>The arguments of \<open>split\<close> after \<open>X\<close>: none, \<open>groups=\<close>, or the binned target.\<close>

datatype 'g split_arg = NoArg | GroupsArg "'g list" | YArg "float64 list"

text \<open>A keyword argument that a call may leave out.\<close>

datatype 'a kwarg = Omitted | Passed 'a

type_synonym metric_triple = "float64 \<times> float64 \<times> float64"

text \<open>
  The calls whose code is not in this repository: the estimator's \<open>fit\<close> (which returns
  the fitted estimator) and \<open>predict\<close>, the splitter's \<open>split\<close> (the list of the
  train and test index arrays of each fold), \<open>pd.cut\<close>, the three metric formulas on
  validated finite targets, and the column mean and standard deviation of a DataFrame.
  \<open>'k\<close> is the type of the keyword arguments handed to \<open>fit\<close>.
\<close>

record ('est, 'x, 'k, 'c, 'g) cv_lib =
  est_fit :: "'est \<Rightarrow> 'x list \<Rightarrow> float64 list \<Rightarrow> 'k \<Rightarrow> error + 'est"
  est_predict :: "'est \<Rightarrow> 'x list \<Rightarrow> error + ndarray"
  split :: "'c splitter \<Rightarrow> 'x list \<Rightarrow> 'g split_arg \<Rightarrow> error + (nat list \<times> nat list) list"
  pd_cut :: "float64 list \<Rightarrow> int \<Rightarrow> error + float64 list"
  r2_score :: "real list \<Rightarrow> real list \<Rightarrow> float64"
  root_mse :: "real list \<Rightarrow> real list \<Rightarrow> float64"
  mape :: "real list \<Rightarrow> real list \<Rightarrow> float64"
  frame_mean :: "float64 list \<Rightarrow> float64"
  frame_std :: "float64 list \<Rightarrow> float64"

fun finite_vals :: "float64 list \<Rightarrow> real list option" where
  "finite_vals [] = Some []"
| "finite_vals (Fin r # xs) = map_option (\<lambda>rs. r # rs) (finite_vals xs)"
| "finite_vals (_ # xs) = None"

text \<open>
  The input validation of sklearn's regression metrics (\<open>r2_score\<close>,
  \<open>mean_squared_error\<close>, \<open>mean_absolute_percentage_error\<close>) for a one-dimensional
  \<open>y_true\<close>: \<open>y_pred\<close> is one-dimensional, or two-dimensional with one column; both have
  the same, non-zero number of samples; every value is finite. Anything else raises.
\<close>

definition check_reg_targets :: "float64 list \<Rightarrow> ndarray \<Rightarrow> error + (real list \<times> real list)" where
  "check_reg_targets y_true y_pred =
     (case y_pred of
        Arr0 v \<Rightarrow> Inl TypeError
      | Arr1 vs \<Rightarrow>
          if length vs \<noteq> length y_true \<or> y_true = [] then Inl ValueError
          else (case (finite_vals y_true, finite_vals vs) of
                  (Some a, Some b) \<Rightarrow> Inr (a, b)
                | _ \<Rightarrow> Inl ValueError)
      | Arr2 rows \<Rightarrow>
          if length rows \<noteq> length y_true \<or> y_true = [] \<or> \<not> list_all (\<lambda>r. length r = 1) rows
          then Inl ValueError
          else (case (finite_vals y_true, finite_vals (concat rows)) of
                  (Some a, Some b) \<Rightarrow> Inr (a, b)
                | _ \<Rightarrow> Inl ValueError)
      | ArrN n \<Rightarrow> Inl ValueError)"

text \<open>\<open>_reg_metrics\<close> and \<open>_get_reg_metrics\<close> (the same in both classes; printing is not modelled).\<close>

definition reg_metrics ::
  "('est, 'x, 'k, 'c, 'g) cv_lib \<Rightarrow> float64 list \<Rightarrow> ndarray \<Rightarrow> error + metric_triple" where
  "reg_metrics lib y y_pred =
     on_ok (check_reg_targets y y_pred)
       (\<lambda>(a, b). Inr (r2_score lib a b, root_mse lib a b, mape lib a b))"

definition get_reg_metrics ::
  "('est, 'x, 'k, 'c, 'g) cv_lib \<Rightarrow> 'est \<Rightarrow> 'x list \<Rightarrow> float64 list \<Rightarrow> error + (metric_triple \<times> ndarray)" where
  "get_reg_metrics lib reg X y =
     on_ok (est_predict lib reg X) (\<lambda>y_pred.
     on_ok (reg_metrics lib y y_pred) (\<lambda>m. Inr (m, y_pred)))"

text \<open>\<open>len(a.shape)\<close> and \<open>a.squeeze()\<close> of a two-dimensional array.\<close>

definition ndim :: "ndarray \<Rightarrow> nat" where
  "ndim a = (case a of Arr0 v \<Rightarrow> 0 | Arr1 vs \<Rightarrow> 1 | Arr2 rows \<Rightarrow> 2 | ArrN n \<Rightarrow> n)"

definition squeeze2 :: "float64 list list \<Rightarrow> ndarray" where
  "squeeze2 rows =
     (if length rows = 1 then (case hd rows of [v] \<Rightarrow> Arr0 v | r \<Rightarrow> Arr1 r)
      else if list_all (\<lambda>r. length r = 1) rows then Arr1 (concat rows)
      else Arr2 rows)"

text \<open>
  \<open>series.iloc[idx] = value\<close> on a float Series: positions out of range raise, a
  zero-dimensional value is written to every position, a one-dimensional value needs the
  length of \<open>idx\<close>; positions are written in order.
\<close>

definition write_cells :: "float64 list \<Rightarrow> nat list \<Rightarrow> float64 list \<Rightarrow> float64 list" where
  "write_cells s idx vals = fold (\<lambda>(i, v) t. t[i := v]) (zip idx vals) s"

definition iloc_assign :: "float64 list \<Rightarrow> nat list \<Rightarrow> ndarray \<Rightarrow> error + float64 list" where
  "iloc_assign s idx val =
     (if \<not> list_all (\<lambda>i. i < length s) idx then Inl IndexError
      else case val of
          Arr0 v \<Rightarrow> Inr (write_cells s idx (replicate (length idx) v))
        | Arr1 vs \<Rightarrow> if length vs = length idx then Inr (write_cells s idx vs) else Inl ValueError
        | _ \<Rightarrow> Inl ValueError)"

text \<open>The rows of a metrics table: one per fold, then \<open>mean\<close> and \<open>std\<close>.\<close>

datatype row_label = FoldRow nat | MeanRow | StdRow

text \<open>Column \<open>j\<close> of a list of rows.\<close>

definition column :: "'a list list \<Rightarrow> nat \<Rightarrow> 'a list" where
  "column rows j = map (\<lambda>r. r ! j) rows"

section \<open>RegressorCV\<close>

text \<open>
  The attributes \<open>cv_results_\<close>, \<open>oof_train_\<close>, \<open>oof_score_\<close>, \<open>oof_mape_\<close>,
  \<open>oof_rmse_\<close> and \<open>metrics_\<close> are the fields of the same names without the last
  underscore. \<open>cv_results_\<close> is a dict of three lists from the constructor until
  \<open>_convert_report_to_df\<close> makes it a DataFrame with the columns \<open>fold\<close>, \<open>reg\<close>,
  \<open>r2_score\<close>, \<open>rmse\<close> and \<open>mape\<close>.
\<close>

type_synonym 'est cv_row = "nat \<times> 'est \<times> float64 \<times> float64 \<times> float64"

datatype 'est cv_results =
  ResultsDict "nat list" "'est list" "metric_triple list" | ResultsFrame "'est cv_row list"

type_synonym summary = "(row_label \<times> float64 list) list"

record ('est, 'c, 'g) regressor_cv =
  cv :: "'c cv_param"
  base_reg :: 'est
  verbose :: bool
  groups :: "'g list option"
  n_bins_stratify :: "int option"
  kf :: "'c splitter"
  cv_results :: "'est cv_results"
  oof_train :: "float64 list option"
  oof_score :: "float64 option"
  oof_mape :: "float64 option"
  oof_rmse :: "float64 option"
  metrics :: "summary option"

definition regressor_cv_init ::
  "'est \<Rightarrow> 'c cv_param \<Rightarrow> 'g list option \<Rightarrow> bool \<Rightarrow> int option
     \<Rightarrow> error + ('est, 'c, 'g) regressor_cv" where
  "regressor_cv_init base_reg0 cv0 groups0 verbose0 n_bins0 =
     on_ok (case cv0 of
              CvInt n \<Rightarrow>
                if groups0 \<noteq> None then new_splitter n (GroupKFold n)
                else if n_bins0 \<noteq> None then new_splitter n (StratifiedKFold n)
                else new_splitter n (KFold n True 42)
            | CvSplitter c \<Rightarrow> Inr (Given c))
       (\<lambda>k. Inr \<lparr> cv = cv0, base_reg = base_reg0, verbose = verbose0, groups = groups0,
                  n_bins_stratify = n_bins0, kf = k, cv_results = ResultsDict [] [] [],
                  oof_train = None, oof_score = None, oof_mape = None, oof_rmse = None,
                  metrics = None \<rparr>)"

text \<open>
  The choice of \<open>kf_split\<close> at the head of \<open>fit\<close>, with the binned target when
  stratifying. The generator is modelled by the list of the folds it yields.
\<close>

definition cv_split ::
  "('est, 'x, 'k, 'c, 'g) cv_lib \<Rightarrow> ('est, 'c, 'g) regressor_cv \<Rightarrow> 'x list \<Rightarrow> float64 list
     \<Rightarrow> error + (float64 list option \<times> (nat list \<times> nat list) list)" where
  "cv_split lib self X y =
     (case groups self of
        Some g \<Rightarrow> on_ok (split lib (kf self) X (GroupsArg g)) (\<lambda>fs. Inr (None, fs))
      | None \<Rightarrow>
         (case n_bins_stratify self of
            Some n \<Rightarrow>
              on_ok (pd_cut lib y n) (\<lambda>y_bin.
              on_ok (split lib (kf self) X (YArg y_bin)) (\<lambda>fs. Inr (Some y_bin, fs)))
          | None \<Rightarrow> on_ok (split lib (kf self) X NoArg) (\<lambda>fs. Inr (None, fs))))"

text \<open>The calls of the verbose block of one fold that can raise (the printing is not modelled).\<close>

definition verbose_checks ::
  "('est, 'x, 'k, 'c, 'g) cv_lib \<Rightarrow> ('est, 'c, 'g) regressor_cv \<Rightarrow> float64 list option
     \<Rightarrow> nat list \<Rightarrow> nat list \<Rightarrow> float64 list \<Rightarrow> float64 list \<Rightarrow> error + unit" where
  "verbose_checks lib self y_bin train_index test_index y_train y_test =
     (if verbose self then
        (if n_bins_stratify self \<noteq> None then
           on_ok (read_local y_bin) (\<lambda>yb.
           on_ok (take_rows yb train_index) (\<lambda>y_train_bin.
           on_ok (take_rows yb test_index) (\<lambda>y_test_bin. Inr ())))
         else
           on_ok (pd_cut lib y_train 10) (\<lambda>y_train_bin.
           on_ok (pd_cut lib y_test 10) (\<lambda>y_test_bin. Inr ())))
      else Inr ())"

text \<open>
  The state of the loop of \<open>fit\<close>: the out-of-fold vector and the three lists of
  \<open>cv_results_\<close>. Appending to \<open>cv_results_\<close> needs the dict of lists.
\<close>

type_synonym 'est fit_state = "float64 list \<times> 'est cv_results"

definition append_result :: "'est cv_results \<Rightarrow> nat \<Rightarrow> 'est \<Rightarrow> metric_triple \<Rightarrow> error + 'est cv_results" where
  "append_result res fold_n reg m =
     (case res of
        ResultsDict fs rs ms \<Rightarrow> Inr (ResultsDict (fs @ [fold_n]) (rs @ [reg]) (ms @ [m]))
      | ResultsFrame rows \<Rightarrow> Inl AttributeError)"

definition fit_fold ::
  "('est, 'x, 'k, 'c, 'g) cv_lib \<Rightarrow> ('est, 'c, 'g) regressor_cv \<Rightarrow> 'x list \<Rightarrow> float64 list
     \<Rightarrow> float64 list option \<Rightarrow> 'k \<Rightarrow> nat \<Rightarrow> nat list \<times> nat list \<Rightarrow> 'est fit_state
     \<Rightarrow> error + 'est fit_state" where
  "fit_fold lib self X y y_bin kwargs fold_n fld st =
     (case fld of (train_index, test_index) \<Rightarrow>
      case st of (oof, res) \<Rightarrow>
      on_ok (take_rows X train_index) (\<lambda>X_train.
      on_ok (take_rows X test_index) (\<lambda>X_test.
      on_ok (take_rows y train_index) (\<lambda>y_train.
      on_ok (take_rows y test_index) (\<lambda>y_test.
      on_ok (verbose_checks lib self y_bin train_index test_index y_train y_test) (\<lambda>u.
      on_ok (est_fit lib (base_reg self) X_train y_train kwargs) (\<lambda>reg.
      on_ok (get_reg_metrics lib reg X_test y_test) (\<lambda>(m, y_pred).
      on_ok (case y_pred of
               Arr1 vs \<Rightarrow> iloc_assign oof test_index y_pred
             | Arr2 rows \<Rightarrow> iloc_assign oof test_index (squeeze2 rows)
             | _ \<Rightarrow> Inr oof) (\<lambda>oof'.
      on_ok (append_result res fold_n reg m) (\<lambda>res'. Inr (oof', res')))))))))))"

fun fit_loop ::
  "('est, 'x, 'k, 'c, 'g) cv_lib \<Rightarrow> ('est, 'c, 'g) regressor_cv \<Rightarrow> 'x list \<Rightarrow> float64 list
     \<Rightarrow> float64 list option \<Rightarrow> 'k \<Rightarrow> nat \<Rightarrow> (nat list \<times> nat list) list \<Rightarrow> 'est fit_state
     \<Rightarrow> error + 'est fit_state" where
  "fit_loop lib self X y y_bin kwargs fold_n [] st = Inr st"
| "fit_loop lib self X y y_bin kwargs fold_n (fld # rest) st =
     on_ok (fit_fold lib self X y y_bin kwargs fold_n fld st)
       (\<lambda>st'. fit_loop lib self X y y_bin kwargs (Suc fold_n) rest st')"

text \<open>\<open>_convert_report_to_df\<close>: reading the column \<open>metrics\<close> needs the dict of lists.\<close>

definition convert_report_to_df :: "'est cv_results \<Rightarrow> error + 'est cv_results" where
  "convert_report_to_df res =
     (case res of
        ResultsDict fs rs ms \<Rightarrow>
          if length fs = length rs \<and> length rs = length ms
          then Inr (ResultsFrame (map (\<lambda>(f, r, (a, b, c)). (f, r, a, b, c)) (zip fs (zip rs ms))))
          else Inl ValueError
      | ResultsFrame rows \<Rightarrow> Inl AttributeError)"

text \<open>
  \<open>get_metrics_summary\<close> returns the table and the instance as the call leaves it.
  Before the conversion \<open>cv_results_\<close> is a dict, which has no \<open>drop\<close>.
\<close>

definition get_metrics_summary ::
  "('est, 'x, 'k, 'c, 'g) cv_lib \<Rightarrow> ('est, 'c, 'g) regressor_cv
     \<Rightarrow> (error + summary) \<times> ('est, 'c, 'g) regressor_cv" where
  "get_metrics_summary lib self =
     (case cv_results self of
        ResultsDict fs rs ms \<Rightarrow> (Inl AttributeError, self)
      | ResultsFrame rows \<Rightarrow>
          (let metrics0 = map (\<lambda>(f, r, a, b, c). (FoldRow f, [a, b, c])) rows;
               metrics_mean = map (\<lambda>j. frame_mean lib (column (map snd metrics0) j)) [0..<3];
               metrics_std = map (\<lambda>j. frame_std lib (column (map snd metrics0) j)) [0..<3];
               metrics1 = metrics0 @ [(MeanRow, metrics_mean)];
               metrics2 = metrics1 @ [(StdRow, metrics_std)]
           in (Inr metrics2, self)))"

definition fit ::
  "('est, 'x, 'k, 'c, 'g) cv_lib \<Rightarrow> ('est, 'c, 'g) regressor_cv \<Rightarrow> 'x list \<Rightarrow> float64 list \<Rightarrow> 'k
     \<Rightarrow> error + ('est, 'c, 'g) regressor_cv" where
  "fit lib self X y kwargs =
     on_ok (cv_split lib self X y) (\<lambda>(y_bin, folds).
     on_ok (fit_loop lib self X y y_bin kwargs 0 folds
              (replicate (length y) NaN, cv_results self)) (\<lambda>(oof, res).
     on_ok (convert_report_to_df res) (\<lambda>frame.
     on_ok (reg_metrics lib y (Arr1 oof)) (\<lambda>(r2, rm, mp).
       let self1 = self\<lparr> oof_train := Some oof, cv_results := frame, oof_score := Some r2,
                         oof_mape := Some mp, oof_rmse := Some rm \<rparr>
       in case get_metrics_summary lib self1 of
            (res_m, self2) \<Rightarrow> on_ok res_m (\<lambda>m. Inr (self2\<lparr> metrics := Some m \<rparr>))))))"

text \<open>\<open>np.median\<close> of a one-dimensional float64 array: NaN if any value is NaN.\<close>

definition fsort :: "float64 list \<Rightarrow> float64 list" where
  "fsort xs = filter (\<lambda>x. x = NInf) xs
            @ map Fin (sort (List.map_filter (\<lambda>x. case x of Fin r \<Rightarrow> Some r | _ \<Rightarrow> None) xs))
            @ filter (\<lambda>x. x = PInf) xs"

definition favg2 :: "float64 \<Rightarrow> float64 \<Rightarrow> float64" where
  "favg2 a b =
     (case (a, b) of
        (Fin x, Fin y) \<Rightarrow> Fin ((x + y) / 2)
      | (NaN, _) \<Rightarrow> NaN | (_, NaN) \<Rightarrow> NaN
      | (NInf, PInf) \<Rightarrow> NaN | (PInf, NInf) \<Rightarrow> NaN
      | (NInf, _) \<Rightarrow> NInf | (_, NInf) \<Rightarrow> NInf
      | (PInf, _) \<Rightarrow> PInf | (_, PInf) \<Rightarrow> PInf)"

definition fmedian :: "float64 list \<Rightarrow> float64" where
  "fmedian xs =
     (let s = fsort xs; n = length xs in
      if n = 0 \<or> list_ex (\<lambda>x. x = NaN) xs then NaN
      else if n mod 2 = 1 then s ! (n div 2)
      else favg2 (s ! (n div 2 - 1)) (s ! (n div 2)))"

text \<open>
  \<open>np.median(y_preds, axis=0)\<close> of a list of arrays: the arrays need one shape, and each
  cell of the result is the median of that cell over the list.
\<close>

definition as_arr0 :: "ndarray \<Rightarrow> float64 option" where
  "as_arr0 a = (case a of Arr0 v \<Rightarrow> Some v | _ \<Rightarrow> None)"

definition as_arr1 :: "ndarray \<Rightarrow> float64 list option" where
  "as_arr1 a = (case a of Arr1 v \<Rightarrow> Some v | _ \<Rightarrow> None)"

definition as_arr2 :: "ndarray \<Rightarrow> float64 list list option" where
  "as_arr2 a = (case a of Arr2 v \<Rightarrow> Some v | _ \<Rightarrow> None)"

definition np_median_axis0 :: "ndarray list \<Rightarrow> error + ndarray" where
  "np_median_axis0 ps =
     (case ps of
        [] \<Rightarrow> Inr (Arr0 NaN)
      | Arr0 v # rest \<Rightarrow>
          (case those (map as_arr0 ps) of
             Some vs \<Rightarrow> Inr (Arr0 (fmedian vs))
           | None \<Rightarrow> Inl ValueError)
      | Arr1 v # rest \<Rightarrow>
          (case those (map as_arr1 ps) of
             Some vs \<Rightarrow>
               if list_all (\<lambda>u. length u = length v) vs
               then Inr (Arr1 (map (\<lambda>i. fmedian (map (\<lambda>u. u ! i) vs)) [0..<length v]))
               else Inl ValueError
           | None \<Rightarrow> Inl ValueError)
      | Arr2 m # rest \<Rightarrow>
          (case those (map as_arr2 ps) of
             Some ms \<Rightarrow>
               if list_all (\<lambda>u. map length u = map length m) ms
               then Inr (Arr2 (map (\<lambda>i. map (\<lambda>j. fmedian (map (\<lambda>u. u ! i ! j) ms))
                                          [0..<length (m ! i)]) [0..<length m]))
               else Inl ValueError
           | None \<Rightarrow> Inl ValueError)
      | ArrN n # rest \<Rightarrow> Inl OtherError)"

text \<open>
  \<open>all_ok\<close> runs a list of calls in order and stops at the first that raises.
\<close>

fun all_ok :: "(error + 'a) list \<Rightarrow> error + 'a list" where
  "all_ok [] = Inr []"
| "all_ok (m # ms) = on_ok m (\<lambda>x. on_ok (all_ok ms) (\<lambda>xs. Inr (x # xs)))"

text \<open>\<open>RegressorCV.predict\<close>: the column \<open>reg\<close> exists once \<open>cv_results_\<close> is a DataFrame.\<close>

definition cv_predict ::
  "('est, 'x, 'k, 'c, 'g) cv_lib \<Rightarrow> ('est, 'c, 'g) regressor_cv \<Rightarrow> 'x list \<Rightarrow> error + ndarray" where
  "cv_predict lib self X =
     (case cv_results self of
        ResultsDict fs rs ms \<Rightarrow> Inl AttributeError
      | ResultsFrame rows \<Rightarrow>
          on_ok (all_ok (map (\<lambda>(f, reg, m). est_predict lib reg X) rows))
            (\<lambda>y_preds. np_median_axis0 y_preds))"

text \<open>The estimators stored in \<open>cv_results_\<close>, in fold order (the column \<open>reg\<close>).\<close>

definition regs_of :: "'est cv_results \<Rightarrow> 'est list" where
  "regs_of res =
     (case res of ResultsDict fs rs ms \<Rightarrow> rs | ResultsFrame rows \<Rightarrow> map (\<lambda>(f, r, m). r) rows)"

text \<open>The cells of a prediction in sample order.\<close>

definition pred_values :: "ndarray \<Rightarrow> float64 list" where
  "pred_values a =
     (case a of Arr0 v \<Rightarrow> [v] | Arr1 vs \<Rightarrow> vs | Arr2 rows \<Rightarrow> concat rows | ArrN n \<Rightarrow> [])"

text \<open>
  What one fold leaves behind: its estimator \<open>reg\<close> is the base estimator fitted on the
  fold's training rows, and the out-of-fold vector \<open>oof\<close> holds, at each test position of
  the fold, the finite value that \<open>reg\<close> predicts for that row.
\<close>

definition fold_written ::
  "('est, 'x, 'k, 'c, 'g) cv_lib \<Rightarrow> 'est \<Rightarrow> 'x list \<Rightarrow> float64 list \<Rightarrow> 'k \<Rightarrow> float64 list
     \<Rightarrow> nat list \<times> nat list \<Rightarrow> 'est \<Rightarrow> bool" where
  "fold_written lib base X y kwargs oof fld reg =
     (est_fit lib base (map (\<lambda>i. X ! i) (fst fld)) (map (\<lambda>i. y ! i) (fst fld)) kwargs = Inr reg
      \<and> (\<exists>p rs. est_predict lib reg (map (\<lambda>i. X ! i) (snd fld)) = Inr p
            \<and> pred_values p = map Fin rs \<and> length rs = length (snd fld)
            \<and> list_all (\<lambda>i. i < length oof) (snd fld)
            \<and> map (\<lambda>i. oof ! i) (snd fld) = map Fin rs))"

subsection \<open>Two folds over four samples\<close>

text \<open>
  An estimator that learns the mean of its training targets and predicts it plus the
  feature; a splitter with the folds (train 2 3, test 0 1) and (train 0 1, test 2 3).
\<close>

definition demo_cv_lib :: "(real, real, unit, unit, unit) cv_lib" where
  "demo_cv_lib =
     \<lparr> est_fit = (\<lambda>e X y k. case finite_vals y of
                                None \<Rightarrow> Inl ValueError
                              | Some rs \<Rightarrow> Inr (sum_list rs / real (length rs))),
       est_predict = (\<lambda>e X. Inr (Arr1 (map (\<lambda>x. Fin (e + x)) X))),
       split = (\<lambda>s X a. Inr [([2, 3], [0, 1]), ([0, 1], [2, 3])]),
       pd_cut = (\<lambda>y n. Inr y),
       r2_score = (\<lambda>a b. Fin 0),
       root_mse = (\<lambda>a b. Fin 0),
       mape = (\<lambda>a b. Fin 0),
       frame_mean = (\<lambda>c. Fin 0),
       frame_std = (\<lambda>c. Fin 0) \<rparr>"

definition demo_cv :: "(real, unit, unit) regressor_cv" where
  "demo_cv =
     \<lparr> cv = CvInt 2, base_reg = 0, verbose = False, groups = None, n_bins_stratify = None,
       kf = KFold 2 True 42, cv_results = ResultsDict [] [] [], oof_train = None,
       oof_score = None, oof_mape = None, oof_rmse = None, metrics = None \<rparr>"

definition demo_cv_fitted :: "(real, unit, unit) regressor_cv" where
  "demo_cv_fitted =
     demo_cv\<lparr> cv_results := ResultsFrame [(0, 6, Fin 0, Fin 0, Fin 0), (1, 2, Fin 0, Fin 0, Fin 0)],
              oof_train := Some [Fin 7, Fin 8, Fin 5, Fin 6],
              oof_score := Some (Fin 0), oof_mape := Some (Fin 0), oof_rmse := Some (Fin 0),
              metrics := Some [(FoldRow 0, [Fin 0, Fin 0, Fin 0]), (FoldRow 1, [Fin 0, Fin 0, Fin 0]),
                               (MeanRow, [Fin 0, Fin 0, Fin 0]), (StdRow, [Fin 0, Fin 0, Fin 0])] \<rparr>"

text \<open>A fitted \<open>RegressorCV\<close> with three stored estimators.\<close>

definition demo_cv_fitted3 :: "(real, unit, unit) regressor_cv" where
  "demo_cv_fitted3 =
     demo_cv_fitted\<lparr> cv_results := ResultsFrame [(0, 0, Fin 0, Fin 0, Fin 0),
                                                 (1, 1, Fin 0, Fin 0, Fin 0),
                                                 (2, 8, Fin 0, Fin 0, Fin 0)] \<rparr>"

section \<open>RegressorTimeSeriesCV\<close>

text \<open>
  The keyword arguments that \<open>fit\<close> hands to the estimator's \<open>fit\<close>: \<open>eval_set\<close> and
  \<open>sample_weight\<close>, each present or left out.
\<close>

record 'x ts_kwargs =
  eval_set :: "('x list \<times> float64 list) kwarg"
  sample_weight :: "float64 list option kwarg"

text \<open>
  A row of \<open>cv_results_\<close>: \<open>fold\<close>, \<open>reg\<close>, the six integers \<open>train_size\<close>,
  \<open>test_size\<close>, \<open>train_start_index\<close>, \<open>train_end_index\<close>, \<open>test_start_index\<close>,
  \<open>test_end_index\<close>, and the metrics. \<open>cv_results_\<close> is a list of dicts until
  \<open>_convert_report_to_df\<close> makes it a DataFrame.
\<close>

type_synonym 'est ts_row = "nat \<times> 'est \<times> nat list \<times> metric_triple"

datatype 'est ts_results = TsList "'est ts_row list" | TsFrame "'est ts_row list"

type_synonym ts_summary = "(row_label \<times> int list \<times> float64 list) list"

text \<open>
  The fields are those of the class with the prefix \<open>ts_\<close> where \<open>RegressorCV\<close> has a
  field of the same name, and without the last underscore.
\<close>

record ('est, 'c) regressor_ts_cv =
  ts_cv :: int
  ts_base_reg :: 'est
  ts_verbose :: bool
  catboost_use_eval_set :: bool
  tss :: "'c splitter"
  ts_cv_results :: "'est ts_results"
  ts_metrics :: "ts_summary option"
  y_test_last_fold :: "float64 list option"
  y_pred_last_fold :: "ndarray option"

definition regressor_ts_cv_init ::
  "'est \<Rightarrow> int \<Rightarrow> bool \<Rightarrow> bool \<Rightarrow> error + ('est, 'c) regressor_ts_cv" where
  "regressor_ts_cv_init base_reg0 cv0 verbose0 use_eval_set0 =
     on_ok (new_splitter cv0 (TimeSeriesSplit cv0))
       (\<lambda>k. Inr \<lparr> ts_cv = cv0, ts_base_reg = base_reg0, ts_verbose = verbose0,
                  catboost_use_eval_set = use_eval_set0, tss = k, ts_cv_results = TsList [],
                  ts_metrics = None, y_test_last_fold = None, y_pred_last_fold = None \<rparr>)"

text \<open>\<open>a[0]\<close> and \<open>a[-1]\<close> of an index array.\<close>

definition first_of :: "'a list \<Rightarrow> error + 'a" where
  "first_of xs = (case xs of [] \<Rightarrow> Inl IndexError | x # r \<Rightarrow> Inr x)"

definition last_of :: "'a list \<Rightarrow> error + 'a" where
  "last_of xs = (if xs = [] then Inl IndexError else Inr (last xs))"

text \<open>The keyword arguments of the per-fold fit and of the fit on the full data.\<close>

definition ts_fold_kwargs ::
  "('est, 'c) regressor_ts_cv \<Rightarrow> 'x list \<Rightarrow> float64 list \<Rightarrow> float64 list option \<Rightarrow> 'x ts_kwargs" where
  "ts_fold_kwargs self X_test y_test sample_weight_train =
     (if catboost_use_eval_set self
      then \<lparr> eval_set = Passed (X_test, y_test), sample_weight = Passed sample_weight_train \<rparr>
      else \<lparr> eval_set = Omitted, sample_weight = Passed sample_weight_train \<rparr>)"

definition ts_full_kwargs ::
  "('est, 'c) regressor_ts_cv \<Rightarrow> 'x list \<Rightarrow> float64 list \<Rightarrow> float64 list option \<Rightarrow> 'x ts_kwargs" where
  "ts_full_kwargs self X y sw =
     (case sw of
        Some w \<Rightarrow>
          if catboost_use_eval_set self
          then \<lparr> eval_set = Passed (X, y), sample_weight = Passed (Some w) \<rparr>
          else \<lparr> eval_set = Omitted, sample_weight = Passed (Some w) \<rparr>
      | None \<Rightarrow>
          if catboost_use_eval_set self
          then \<lparr> eval_set = Passed (X, y), sample_weight = Omitted \<rparr>
          else \<lparr> eval_set = Omitted, sample_weight = Omitted \<rparr>)"

text \<open>The weights of the training rows of a fold.\<close>

definition ts_fold_weights :: "float64 list option \<Rightarrow> nat list \<Rightarrow> error + float64 list option" where
  "ts_fold_weights sw train_index =
     (case sw of
        None \<Rightarrow> Inr None
      | Some w \<Rightarrow> on_ok (take_rows w train_index) (\<lambda>v. Inr (Some v)))"

definition ts_append :: "'est ts_results \<Rightarrow> 'est ts_row \<Rightarrow> error + 'est ts_results" where
  "ts_append res row =
     (case res of TsList rows \<Rightarrow> Inr (TsList (rows @ [row])) | TsFrame rows \<Rightarrow> Inl AttributeError)"

text \<open>
  The state of the loop: \<open>cv_results_\<close> and the locals \<open>y_test\<close> and \<open>y_pred\<close>, which
  are unbound before the first fold.
\<close>

type_synonym 'est ts_state = "'est ts_results \<times> (float64 list \<times> ndarray) option"

definition ts_fit_fold ::
  "('est, 'x, 'x ts_kwargs, 'c, 'g) cv_lib \<Rightarrow> ('est, 'c) regressor_ts_cv \<Rightarrow> 'x list \<Rightarrow> float64 list
     \<Rightarrow> float64 list option \<Rightarrow> nat \<Rightarrow> nat list \<times> nat list \<Rightarrow> 'est ts_state
     \<Rightarrow> error + 'est ts_state" where
  "ts_fit_fold lib self X y sw fold_n fld st =
     (case fld of (train_index, test_index) \<Rightarrow>
      on_ok (take_rows X train_index) (\<lambda>X_train.
      on_ok (take_rows X test_index) (\<lambda>X_test.
      on_ok (take_rows y train_index) (\<lambda>y_train.
      on_ok (take_rows y test_index) (\<lambda>y_test.
      on_ok (ts_fold_weights sw train_index) (\<lambda>sample_weight_train.
      on_ok (est_fit lib (ts_base_reg self) X_train y_train
               (ts_fold_kwargs self X_test y_test sample_weight_train)) (\<lambda>reg.
      on_ok (get_reg_metrics lib reg X_test y_test) (\<lambda>(m, y_pred).
      on_ok (first_of train_index) (\<lambda>train_start.
      on_ok (last_of train_index) (\<lambda>train_end.
      on_ok (first_of test_index) (\<lambda>test_start.
      on_ok (last_of test_index) (\<lambda>test_end.
      on_ok (ts_append (fst st)
               (fold_n, reg, [length train_index, length test_index, train_start, train_end,
                              test_start, test_end], m))
        (\<lambda>res'. Inr (res', Some (y_test, y_pred)))))))))))))))"

fun ts_fit_loop ::
  "('est, 'x, 'x ts_kwargs, 'c, 'g) cv_lib \<Rightarrow> ('est, 'c) regressor_ts_cv \<Rightarrow> 'x list \<Rightarrow> float64 list
     \<Rightarrow> float64 list option \<Rightarrow> nat \<Rightarrow> (nat list \<times> nat list) list \<Rightarrow> 'est ts_state
     \<Rightarrow> error + 'est ts_state" where
  "ts_fit_loop lib self X y sw fold_n [] st = Inr st"
| "ts_fit_loop lib self X y sw fold_n (fld # rest) st =
     on_ok (ts_fit_fold lib self X y sw fold_n fld st)
       (\<lambda>st'. ts_fit_loop lib self X y sw (Suc fold_n) rest st')"

definition ts_convert_report_to_df :: "'est ts_results \<Rightarrow> error + 'est ts_results" where
  "ts_convert_report_to_df res =
     (case res of TsList rows \<Rightarrow> Inr (TsFrame rows) | TsFrame rows \<Rightarrow> Inl AttributeError)"

text \<open>\<open>astype(int)\<close> of a float cell: truncation; NaN and the infinities raise.\<close>

definition astype_int :: "float64 \<Rightarrow> error + int" where
  "astype_int v =
     (case v of Fin r \<Rightarrow> Inr (if 0 \<le> r then \<lfloor>r\<rfloor> else \<lceil>r\<rceil>) | _ \<Rightarrow> Inl ValueError)"

text \<open>
  \<open>get_metrics_summary\<close> of the time-series class: the table with the six integer
  columns cast back by \<open>astype(int)\<close>, and the instance as the call leaves it.
\<close>

definition ts_get_metrics_summary ::
  "('est, 'x, 'k, 'c, 'g) cv_lib \<Rightarrow> ('est, 'c2) regressor_ts_cv
     \<Rightarrow> (error + ts_summary) \<times> ('est, 'c2) regressor_ts_cv" where
  "ts_get_metrics_summary lib self =
     (case ts_cv_results self of
        TsList rows \<Rightarrow> (Inl AttributeError, self)
      | TsFrame rows \<Rightarrow>
          (let metrics0 = map (\<lambda>(f, r, ns, (a, b, c)).
                             (FoldRow f, map (\<lambda>n. Fin (real n)) ns, [a, b, c])) rows;
               ints = map (\<lambda>(l, ns, ms). ns) metrics0;
               floats = map (\<lambda>(l, ns, ms). ms) metrics0;
               metrics_mean = (MeanRow, map (\<lambda>j. frame_mean lib (column ints j)) [0..<6],
                                        map (\<lambda>j. frame_mean lib (column floats j)) [0..<3]);
               metrics_std = (StdRow, map (\<lambda>j. frame_std lib (column ints j)) [0..<6],
                                      map (\<lambda>j. frame_std lib (column floats j)) [0..<3]);
               metrics2 = metrics0 @ [metrics_mean] @ [metrics_std]
           in (on_ok (all_ok (map (\<lambda>(l, ns, ms). all_ok (map astype_int ns)) metrics2))
                 (\<lambda>cast. Inr (map (\<lambda>((l, ns, ms), is). (l, is, ms)) (zip metrics2 cast))),
               self)))"

definition ts_fit ::
  "('est, 'x, 'x ts_kwargs, 'c, 'g) cv_lib \<Rightarrow> ('est, 'c) regressor_ts_cv \<Rightarrow> 'x list \<Rightarrow> float64 list
     \<Rightarrow> float64 list option \<Rightarrow> error + ('est, 'c) regressor_ts_cv" where
  "ts_fit lib self X y sw =
     on_ok (split lib (tss self) X NoArg) (\<lambda>folds.
     on_ok (ts_fit_loop lib self X y sw 0 folds (ts_cv_results self, None)) (\<lambda>(res, lst).
     on_ok (read_local lst) (\<lambda>(y_test, y_pred).
     on_ok (est_fit lib (ts_base_reg self) X y (ts_full_kwargs self X y sw)) (\<lambda>base'.
     on_ok (ts_convert_report_to_df res) (\<lambda>frame.
       let self1 = self\<lparr> y_test_last_fold := Some y_test, y_pred_last_fold := Some y_pred,
                         ts_base_reg := base', ts_cv_results := frame \<rparr>
       in case ts_get_metrics_summary lib self1 of
            (res_m, self2) \<Rightarrow> on_ok res_m (\<lambda>m. Inr (self2\<lparr> ts_metrics := Some m \<rparr>)))))))"

definition ts_predict ::
  "('est, 'x, 'k, 'c, 'g) cv_lib \<Rightarrow> ('est, 'c2) regressor_ts_cv \<Rightarrow> 'x list \<Rightarrow> error + ndarray" where
  "ts_predict lib self X = est_predict lib (ts_base_reg self) X"

text \<open>The estimators stored in \<open>cv_results_\<close>, in fold order.\<close>

definition ts_regs_of :: "'est ts_results \<Rightarrow> 'est list" where
  "ts_regs_of res =
     (case res of TsList rows \<Rightarrow> map (\<lambda>(f, r, m). r) rows
                | TsFrame rows \<Rightarrow> map (\<lambda>(f, r, m). r) rows)"

text \<open>
  What one fold of the time-series fit stores: the base estimator \<open>base\<close>, fitted on the
  fold's training rows with the fold's keyword arguments.
\<close>

definition ts_fold_fitted ::
  "('est, 'x, 'x ts_kwargs, 'c, 'g) cv_lib \<Rightarrow> ('est, 'c) regressor_ts_cv \<Rightarrow> 'x list \<Rightarrow> float64 list
     \<Rightarrow> float64 list option \<Rightarrow> nat list \<times> nat list \<Rightarrow> 'est \<Rightarrow> bool" where
  "ts_fold_fitted lib self X y sw fld reg =
     (\<exists>swt. ts_fold_weights sw (fst fld) = Inr swt
        \<and> est_fit lib (ts_base_reg self) (map (\<lambda>i. X ! i) (fst fld)) (map (\<lambda>i. y ! i) (fst fld))
             (ts_fold_kwargs self (map (\<lambda>i. X ! i) (snd fld)) (map (\<lambda>i. y ! i) (snd fld)) swt)
           = Inr reg)"

subsection \<open>Two expanding windows over three samples\<close>

definition demo_ts_lib :: "(real, real, real ts_kwargs, unit, unit) cv_lib" where
  "demo_ts_lib =
     \<lparr> est_fit = (\<lambda>e X y k. case finite_vals y of
                                None \<Rightarrow> Inl ValueError
                              | Some rs \<Rightarrow> Inr (e + sum_list rs)),
       est_predict = (\<lambda>e X. Inr (Arr1 (map (\<lambda>x. Fin (e + x)) X))),
       split = (\<lambda>s X a. Inr [([0], [1]), ([0, 1], [2])]),
       pd_cut = (\<lambda>y n. Inr y),
       r2_score = (\<lambda>a b. Fin 0),
       root_mse = (\<lambda>a b. Fin 0),
       mape = (\<lambda>a b. Fin 0),
       frame_mean = (\<lambda>c. Fin 1),
       frame_std = (\<lambda>c. Fin 0) \<rparr>"

definition demo_ts :: "(real, unit) regressor_ts_cv" where
  "demo_ts =
     \<lparr> ts_cv = 2, ts_base_reg = 0, ts_verbose = False, catboost_use_eval_set = False,
       tss = TimeSeriesSplit 2, ts_cv_results = TsList [], ts_metrics = None,
       y_test_last_fold = None, y_pred_last_fold = None \<rparr>"

definition demo_ts_fitted :: "(real, unit) regressor_ts_cv" where
  "demo_ts_fitted =
     demo_ts\<lparr> ts_base_reg := 9,
              ts_cv_results := TsFrame [(0, 1, [1, 1, 0, 0, 1, 1], Fin 0, Fin 0, Fin 0),
                                        (1, 4, [2, 1, 0, 1, 2, 2], Fin 0, Fin 0, Fin 0)],
              ts_metrics := Some [(FoldRow 0, [1, 1, 0, 0, 1, 1], [Fin 0, Fin 0, Fin 0]),
                                  (FoldRow 1, [2, 1, 0, 1, 2, 2], [Fin 0, Fin 0, Fin 0]),
                                  (MeanRow, [1, 1, 1, 1, 1, 1], [Fin 1, Fin 1, Fin 1]),
                                  (StdRow, [0, 0, 0, 0, 0, 0], [Fin 0, Fin 0, Fin 0])],
              y_test_last_fold := Some [Fin 5],
              y_pred_last_fold := Some (Arr1 [Fin 7]) \<rparr>"

section \<open>DataFrames as objects\<close>

text \<open>
  A DataFrame cell is a float or any other object (shown as a string). A DataFrame has
  a number of rows and its columns in order, each with a name and one cell per row.
\<close>

datatype cell = Num float64 | Obj string

record dataframe =
  nrows :: nat
  columns :: "(string \<times> cell list) list"

text \<open>
  DataFrames are mutable objects that the caller and the instance hold by reference. The
  store is the list of all DataFrames allocated so far; a reference is a position in it.
  A command runs on a store and returns a value or an exception, and the store after it.
\<close>

type_synonym addr = nat

type_synonym store = "dataframe list"

type_synonym 'a cmd = "store \<Rightarrow> (error + 'a) \<times> store"

definition ret :: "'a \<Rightarrow> 'a cmd" where
  "ret x = (\<lambda>h. (Inr x, h))"

definition lift :: "error + 'a \<Rightarrow> 'a cmd" where
  "lift m = (\<lambda>h. (m, h))"

definition then_do :: "'a cmd \<Rightarrow> ('a \<Rightarrow> 'b cmd) \<Rightarrow> 'b cmd" where
  "then_do c f = (\<lambda>h. case c h of (Inl e, h') \<Rightarrow> (Inl e, h') | (Inr x, h') \<Rightarrow> f x h')"

definition alloc :: "dataframe \<Rightarrow> addr cmd" where
  "alloc df = (\<lambda>h. (Inr (length h), h @ [df]))"

text \<open>Reading and writing through a reference; a reference outside the store cannot arise.\<close>

definition load :: "addr \<Rightarrow> dataframe cmd" where
  "load a = (\<lambda>h. (if a < length h then Inr (h ! a) else Inl OtherError, h))"

definition store_at :: "addr \<Rightarrow> dataframe \<Rightarrow> unit cmd" where
  "store_at a df = (\<lambda>h. if a < length h then (Inr (), h[a := df]) else (Inl OtherError, h))"

text \<open>\<open>df[c]\<close>, \<open>df[c] = values\<close> (a new column goes last) and \<open>df.drop(columns=c)\<close> on a value.\<close>

definition frame_get :: "dataframe \<Rightarrow> string \<Rightarrow> error + cell list" where
  "frame_get df c = (case map_of (columns df) c of None \<Rightarrow> Inl KeyError | Some v \<Rightarrow> Inr v)"

definition frame_set :: "dataframe \<Rightarrow> string \<Rightarrow> cell list \<Rightarrow> error + dataframe" where
  "frame_set df c vs =
     (if length vs \<noteq> nrows df then Inl ValueError
      else Inr (df\<lparr> columns := AList.update c vs (columns df) \<rparr>))"

definition frame_drop :: "dataframe \<Rightarrow> string \<Rightarrow> error + dataframe" where
  "frame_drop df c =
     (case map_of (columns df) c of
        None \<Rightarrow> Inl KeyError
      | Some v \<Rightarrow> Inr (df\<lparr> columns := AList.delete c (columns df) \<rparr>))"

text \<open>The rows \<open>idx\<close> of a frame, as a new frame value.\<close>

definition frame_take :: "dataframe \<Rightarrow> nat list \<Rightarrow> error + dataframe" where
  "frame_take df idx =
     (if list_all (\<lambda>i. i < nrows df) idx
      then Inr \<lparr> nrows = length idx,
                 columns = map (\<lambda>(c, vs). (c, map (\<lambda>i. vs ! i) idx)) (columns df) \<rparr>
      else Inl IndexError)"

text \<open>\<open>pd.concat([a, b])\<close>: the rows of \<open>a\<close> then those of \<open>b\<close>; a column missing on one side is NaN there.\<close>

definition frame_concat :: "dataframe \<Rightarrow> dataframe \<Rightarrow> dataframe" where
  "frame_concat a b =
     \<lparr> nrows = nrows a + nrows b,
       columns = map (\<lambda>c. (c,
           (case map_of (columns a) c of None \<Rightarrow> replicate (nrows a) (Num NaN) | Some v \<Rightarrow> v)
         @ (case map_of (columns b) c of None \<Rightarrow> replicate (nrows b) (Num NaN) | Some v \<Rightarrow> v)))
         (remdups (map fst (columns a) @ map fst (columns b))) \<rparr>"

text \<open>The same operations on objects: \<open>copy\<close> allocates, \<open>df[c] = v\<close> and \<open>drop(inplace=True)\<close> mutate.\<close>

definition df_copy :: "addr \<Rightarrow> addr cmd" where
  "df_copy a = then_do (load a) alloc"

definition df_getitem :: "addr \<Rightarrow> string \<Rightarrow> cell list cmd" where
  "df_getitem a c = then_do (load a) (\<lambda>df. lift (frame_get df c))"

definition df_setitem :: "addr \<Rightarrow> string \<Rightarrow> cell list \<Rightarrow> unit cmd" where
  "df_setitem a c vs = then_do (load a) (\<lambda>df. then_do (lift (frame_set df c vs)) (store_at a))"

definition df_drop_inplace :: "addr \<Rightarrow> string \<Rightarrow> unit cmd" where
  "df_drop_inplace a c = then_do (load a) (\<lambda>df. then_do (lift (frame_drop df c)) (store_at a))"

definition pd_concat :: "addr \<Rightarrow> addr \<Rightarrow> addr cmd" where
  "pd_concat a b = then_do (load a) (\<lambda>x. then_do (load b) (\<lambda>y. alloc (frame_concat x y)))"

text \<open>The float values of a column (\<open>.values\<close> handed to a scaler): an object cell raises.\<close>

fun float_values :: "cell list \<Rightarrow> error + float64 list" where
  "float_values [] = Inr []"
| "float_values (Num v # cs) = on_ok (float_values cs) (\<lambda>vs. Inr (v # vs))"
| "float_values (Obj s # cs) = Inl ValueError"

section \<open>StandardScaler\<close>

text \<open>
  sklearn's \<open>StandardScaler\<close> on one column, in exact arithmetic: \<open>fit\<close> takes the mean
  and the population standard deviation of the values that are not NaN (a zero deviation
  is replaced by 1) and raises on an empty or infinite input; \<open>transform\<close> and
  \<open>inverse_transform\<close> keep NaN. A scaler fitted on NaN only has NaN statistics (\<open>None\<close>).
\<close>

type_synonym scaler = "(real \<times> real) option"

definition is_inf :: "float64 \<Rightarrow> bool" where
  "is_inf v = (v = PInf \<or> v = NInf)"

definition fin_part :: "float64 list \<Rightarrow> real list" where
  "fin_part xs = List.map_filter (\<lambda>x. case x of Fin r \<Rightarrow> Some r | _ \<Rightarrow> None) xs"

definition scaler_fit :: "float64 list \<Rightarrow> error + scaler" where
  "scaler_fit xs =
     (if xs = [] \<or> list_ex is_inf xs then Inl ValueError
      else let fs = fin_part xs in
        if fs = [] then Inr None
        else let mu = sum_list fs / real (length fs);
                 var = sum_list (map (\<lambda>x. (x - mu)\<^sup>2) fs) / real (length fs)
             in Inr (Some (mu, if var = 0 then 1 else sqrt var)))"

definition scaler_transform :: "scaler \<Rightarrow> float64 list \<Rightarrow> error + float64 list" where
  "scaler_transform sc xs =
     (if xs = [] \<or> list_ex is_inf xs then Inl ValueError
      else Inr (map (\<lambda>x. case (sc, x) of
                           (Some (mu, sigma), Fin v) \<Rightarrow> Fin ((v - mu) / sigma)
                         | _ \<Rightarrow> NaN) xs))"

definition scaler_inverse_transform :: "scaler \<Rightarrow> float64 list \<Rightarrow> error + float64 list" where
  "scaler_inverse_transform sc xs =
     (if xs = [] \<or> list_ex is_inf xs then Inl ValueError
      else Inr (map (\<lambda>x. case (sc, x) of
                           (Some (mu, sigma), Fin v) \<Rightarrow> Fin (v * sigma + mu)
                         | _ \<Rightarrow> NaN) xs))"

section \<open>AutoRegressor and AutoClassifier: the constructors\<close>

text \<open>
  The library calls of the constructors: \<open>np.log1p\<close> on a float and the row positions
  that \<open>train_test_split\<close> draws for a number of rows and a \<open>random_state\<close>.
\<close>

record auto_lib =
  np_log1p :: "float64 \<Rightarrow> float64"
  train_test_split :: "nat \<Rightarrow> int \<Rightarrow> error + (nat list \<times> nat list)"

text \<open>\<open>series.apply(np.log1p)\<close>.\<close>

fun apply_log1p :: "auto_lib \<Rightarrow> cell list \<Rightarrow> error + cell list" where
  "apply_log1p lib [] = Inr []"
| "apply_log1p lib (Num v # cs) = on_ok (apply_log1p lib cs) (\<lambda>vs. Inr (Num (np_log1p lib v) # vs))"
| "apply_log1p lib (Obj s # cs) = Inl TypeError"

text \<open>\<open>x.copy()\<close> of an argument that may be \<open>None\<close>.\<close>

definition copy_arg :: "addr option \<Rightarrow> addr cmd" where
  "copy_arg a = (case a of None \<Rightarrow> lift (Inl AttributeError) | Some r \<Rightarrow> df_copy r)"

text \<open>\<open>df['target'] = df[target_col]; df.drop(columns=target_col, inplace=True)\<close>.\<close>

definition rename_target :: "addr \<Rightarrow> string \<Rightarrow> unit cmd" where
  "rename_target a target_col =
     then_do (df_getitem a target_col) (\<lambda>col.
     then_do (df_setitem a ''target'' col) (\<lambda>u.
     df_drop_inplace a target_col))"

text \<open>
  The first block of both constructors, the same statements in each: it returns the
  references kept as \<open>self.data\<close>, \<open>self.train\<close> and \<open>self.test\<close>.
\<close>

definition prepare_frames ::
  "auto_lib \<Rightarrow> string \<Rightarrow> bool \<Rightarrow> int \<Rightarrow> addr option \<Rightarrow> addr option \<Rightarrow> addr option
     \<Rightarrow> (addr \<times> addr \<times> addr) cmd" where
  "prepare_frames lib target_col log_target random_st data0 train0 test0 =
     (case data0 of
        Some d0 \<Rightarrow>
          then_do (df_copy d0) (\<lambda>d.
          then_do (df_getitem d target_col) (\<lambda>col.
          then_do (if log_target then lift (apply_log1p lib col) else ret col) (\<lambda>tgt.
          then_do (df_setitem d ''target'' tgt) (\<lambda>u.
          then_do (df_drop_inplace d target_col) (\<lambda>u.
          then_do (load d) (\<lambda>df.
          then_do (lift (train_test_split lib (nrows df) random_st)) (\<lambda>(tr_idx, te_idx).
          then_do (lift (frame_take df tr_idx)) (\<lambda>tr_df.
          then_do (lift (frame_take df te_idx)) (\<lambda>te_df.
          then_do (alloc tr_df) (\<lambda>tr.
          then_do (alloc te_df) (\<lambda>te. ret (d, tr, te))))))))))))
      | None \<Rightarrow>
          then_do (copy_arg train0) (\<lambda>tr.
          then_do (rename_target tr target_col) (\<lambda>u.
          then_do (copy_arg test0) (\<lambda>te.
          then_do (rename_target te target_col) (\<lambda>u.
          then_do (case (train0, test0) of
                     (Some a, Some b) \<Rightarrow> pd_concat a b
                   | _ \<Rightarrow> lift (Inl TypeError)) (\<lambda>d. ret (d, tr, te)))))))"

text \<open>
  The target scaling of \<open>AutoRegressor\<close>: the scaler is fitted on the \<open>target\<close> column
  of \<open>self.train\<close>, and both \<open>self.train\<close> and \<open>self.test\<close> get the transformed column.
\<close>

definition scaled_column :: "scaler \<Rightarrow> addr \<Rightarrow> unit cmd" where
  "scaled_column sc a =
     then_do (df_getitem a ''target'') (\<lambda>col.
     then_do (lift (float_values col)) (\<lambda>vals.
     then_do (lift (scaler_transform sc vals)) (\<lambda>scaled.
     df_setitem a ''target'' (map Num scaled))))"

definition scale_target_step :: "bool \<Rightarrow> addr \<Rightarrow> addr \<Rightarrow> scaler option cmd" where
  "scale_target_step scale_target tr te =
     (if scale_target then
        then_do (df_getitem tr ''target'') (\<lambda>col.
        then_do (lift (float_values col)) (\<lambda>vals.
        then_do (lift (scaler_fit vals)) (\<lambda>sc.
        then_do (scaled_column sc tr) (\<lambda>u.
        then_do (scaled_column sc te) (\<lambda>u. ret (Some sc))))))
      else ret None)"

text \<open>The imputer of \<open>get_pipeline_preprocessor\<close>: another strategy leaves the attribute unset.\<close>

datatype imputer = KNNImputer nat | SimpleImputer string

definition choose_imputer :: "string \<Rightarrow> error + imputer" where
  "choose_imputer strategy =
     (if strategy = ''knn'' then Inr (KNNImputer 3)
      else if strategy = ''simple'' then Inr (SimpleImputer ''median'')
      else Inl AttributeError)"

text \<open>A pipeline by the names of its steps; the column transformer by its two pipelines.\<close>

record preprocessor =
  cat_pipe :: "string list"
  num_pipe :: "string list"
  num_imputer :: imputer

definition get_pipeline_preprocessor :: "string \<Rightarrow> bool \<Rightarrow> bool \<Rightarrow> bool \<Rightarrow> error + preprocessor" where
  "get_pipeline_preprocessor strategy native_cat scale_cat scale_num =
     on_ok (choose_imputer strategy) (\<lambda>imp.
       Inr \<lparr> cat_pipe = (if native_cat then [''imputer'']
                          else if scale_cat then [''imputer'', ''one_hot'', ''scaler'']
                          else [''imputer'', ''one_hot'']),
             num_pipe = (if scale_num then [''imputer'', ''scaler''] else [''imputer'']),
             num_imputer = imp \<rparr>)"

text \<open>The \<open>estimator\<close> argument and the regressor chosen from it.\<close>

datatype 'e estimator_arg = ByName string | Prebuilt 'e

datatype 'e regressor =
  RandomForestRegressor int | CatBoostRegressor "nat list option" | LinearRegression | Custom 'e

definition choose_regressor :: "'e estimator_arg \<Rightarrow> bool \<Rightarrow> string list \<Rightarrow> int \<Rightarrow> 'e regressor" where
  "choose_regressor est native_cat cat_cols0 random_st =
     (case est of
        ByName s \<Rightarrow>
          if s = ''random_forest'' then RandomForestRegressor random_st
          else if s = ''catboost''
          then (if native_cat then CatBoostRegressor (Some [0..<length cat_cols0])
                else CatBoostRegressor None)
          else LinearRegression
      | Prebuilt e \<Rightarrow> Custom e)"

text \<open>
  The arguments of \<open>AutoRegressor.__init__\<close> (those of \<open>AutoClassifier\<close> are among
  them); \<open>data\<close>, \<open>train\<close> and \<open>test\<close> are references or \<open>None\<close>. \<open>ohe_min_freq\<close>
  only configures the encoder and is left out.
\<close>

record 'e auto_args =
  arg_num_cols :: "string list"
  arg_cat_cols :: "string list"
  arg_target_col :: string
  arg_data :: "addr option"
  arg_train :: "addr option"
  arg_test :: "addr option"
  arg_random_st :: int
  arg_log_target :: bool
  arg_estimator :: "'e estimator_arg"
  arg_imputer_strategy :: string
  arg_use_catboost_native_cat_features :: bool
  arg_scale_numeric_data :: bool
  arg_scale_categoric_data :: bool
  arg_scale_target :: bool

text \<open>
  The attributes that the constructor of \<open>AutoRegressor\<close> computes, each with the prefix
  \<open>ar_\<close>; \<open>ar_data\<close>, \<open>ar_train\<close> and \<open>ar_test\<close> are references, and
  \<open>num_out_transformer\<close> is the field \<open>num_imputer\<close> of the preprocessor. The attributes
  that only keep an argument (\<open>num_cols\<close>, \<open>cat_cols\<close>, \<open>imputer_strategy\<close> and the
  flags) are read from the arguments.
\<close>

record 'e auto_regressor =
  ar_estimator :: "'e estimator_arg"
  ar_target_col :: string
  ar_data :: addr
  ar_train :: addr
  ar_test :: addr
  ar_target_scaler :: "scaler option"
  ar_prep :: preprocessor
  ar_reg :: "'e regressor"
  ar_model :: "preprocessor \<times> 'e regressor"

definition auto_regressor_init :: "auto_lib \<Rightarrow> 'e auto_args \<Rightarrow> 'e auto_regressor cmd" where
  "auto_regressor_init lib args =
     then_do (prepare_frames lib (arg_target_col args) (arg_log_target args) (arg_random_st args)
                (arg_data args) (arg_train args) (arg_test args)) (\<lambda>(d, tr, te).
     then_do (scale_target_step (arg_scale_target args) tr te) (\<lambda>sc.
     then_do (lift (get_pipeline_preprocessor (arg_imputer_strategy args)
                      (arg_use_catboost_native_cat_features args)
                      (arg_scale_categoric_data args) (arg_scale_numeric_data args))) (\<lambda>p.
       let r = choose_regressor (arg_estimator args) (arg_use_catboost_native_cat_features args)
                 (arg_cat_cols args) (arg_random_st args)
       in ret \<lparr> ar_estimator = arg_estimator args, ar_target_col = arg_target_col args,
                 ar_data = d, ar_train = tr, ar_test = te, ar_target_scaler = sc,
                 ar_prep = p, ar_reg = r, ar_model = (p, r) \<rparr>)))"

text \<open>
  \<open>AutoClassifier\<close>: the estimator \<open>'catboost'\<close> is replaced by a CatBoostClassifier;
  the fields have the prefix \<open>ac_\<close>.
\<close>

datatype 'e classifier = CatBoostClassifier | Given_estimator "'e estimator_arg"

record 'e auto_classifier =
  ac_estimator :: "'e classifier"
  ac_target_col :: string
  ac_data :: addr
  ac_train :: addr
  ac_test :: addr
  ac_model :: "preprocessor \<times> 'e classifier"

definition auto_classifier_init :: "auto_lib \<Rightarrow> 'e auto_args \<Rightarrow> 'e auto_classifier cmd" where
  "auto_classifier_init lib args =
     then_do (prepare_frames lib (arg_target_col args) (arg_log_target args) (arg_random_st args)
                (arg_data args) (arg_train args) (arg_test args)) (\<lambda>(d, tr, te).
     then_do (lift (get_pipeline_preprocessor (arg_imputer_strategy args) False False False)) (\<lambda>p.
       let e = (if arg_estimator args = ByName ''catboost'' then CatBoostClassifier
                else Given_estimator (arg_estimator args))
       in ret \<lparr> ac_estimator = e, ac_target_col = arg_target_col args,
                 ac_data = d, ac_train = tr, ac_test = te, ac_model = (p, e) \<rparr>))"

text \<open>
  A command is \<open>frame_safe\<close> for the first \<open>n\<close> objects of the store when it leaves them
  as they are, never shrinks the store, and returns only values that satisfy \<open>Q\<close>.
\<close>

definition frame_safe :: "nat \<Rightarrow> 'a cmd \<Rightarrow> ('a \<Rightarrow> bool) \<Rightarrow> bool" where
  "frame_safe n c Q =
     (\<forall>h. n \<le> length h \<longrightarrow>
        (case c h of (r, h') \<Rightarrow>
           take n h' = take n h \<and> length h \<le> length h' \<and> (\<forall>x. r = Inr x \<longrightarrow> Q x)))"

subsection \<open>A caller's frame with the columns x and price\<close>

definition demo_auto_lib :: auto_lib where
  "demo_auto_lib = \<lparr> np_log1p = (\<lambda>v. v), train_test_split = (\<lambda>n s. Inr ([0, 2], [1])) \<rparr>"

definition demo_frame :: dataframe where
  "demo_frame = \<lparr> nrows = 3, columns = [(''x'', [Num (Fin 1), Num (Fin 2), Num (Fin 3)]),
                                        (''price'', [Num (Fin 1), Num (Fin 7), Num (Fin 3)])] \<rparr>"

definition demo_args :: "unit auto_args" where
  "demo_args =
     \<lparr> arg_num_cols = [''x''], arg_cat_cols = [], arg_target_col = ''price'',
       arg_data = Some 0, arg_train = None, arg_test = None, arg_random_st = 42,
       arg_log_target = False, arg_estimator = ByName ''linear'',
       arg_imputer_strategy = ''simple'', arg_use_catboost_native_cat_features = False,
       arg_scale_numeric_data = False, arg_scale_categoric_data = False,
       arg_scale_target = True \<rparr>"

definition demo_prep :: preprocessor where
  "demo_prep = \<lparr> cat_pipe = [''imputer'', ''one_hot''], num_pipe = [''imputer''],
                 num_imputer = SimpleImputer ''median'' \<rparr>"

definition demo_auto :: "unit auto_regressor" where
  "demo_auto = \<lparr> ar_estimator = ByName ''linear'', ar_target_col = ''price'', ar_data = 1,
                 ar_train = 2, ar_test = 3, ar_target_scaler = Some (Some (2, 1)),
                 ar_prep = demo_prep, ar_reg = LinearRegression,
                 ar_model = (demo_prep, LinearRegression) \<rparr>"

text \<open>
  The store after the constructor ran on \<open>demo_args\<close> in a store holding \<open>demo_frame\<close>:
  the caller's frame, \<open>self.data\<close>, \<open>self.train\<close> (rows 0 and 2) and \<open>self.test\<close> (row 1).
\<close>

definition demo_store :: store where
  "demo_store =
     [demo_frame,
      \<lparr> nrows = 3, columns = [(''x'', [Num (Fin 1), Num (Fin 2), Num (Fin 3)]),
                              (''target'', [Num (Fin 1), Num (Fin 7), Num (Fin 3)])] \<rparr>,
      \<lparr> nrows = 2, columns = [(''x'', [Num (Fin 1), Num (Fin 3)]),
                              (''target'', [Num (Fin (- 1)), Num (Fin 1)])] \<rparr>,
      \<lparr> nrows = 1, columns = [(''x'', [Num (Fin 2)]), (''target'', [Num (Fin 5)])] \<rparr>]"

section \<open>Basic facts\<close>

lemma on_ok_Inl [simp]: "on_ok (Inl e) f = Inl e"
  by (simp add: on_ok_def)

lemma on_ok_Inr [simp]: "on_ok (Inr x) f = f x"
  by (simp add: on_ok_def)

lemma on_ok_eq_Inr: "on_ok m f = Inr y \<longleftrightarrow> (\<exists>x. m = Inr x \<and> f x = Inr y)"
  by (cases m) simp_all

lemma on_ok_isl: "isl m \<Longrightarrow> isl (on_ok m f)"
  by (cases m) simp_all

section \<open>KNNRegressor: an unknown aggregation mode\<close>

text \<open>
  C9. With uniform weights (\<open>_get_weights\<close> returns \<open>None\<close>), \<open>predict\<close> called with a
  \<open>pred_calc\<close> other than \<open>'mean'\<close> and \<open>'median'\<close> raises: \<open>y_pred\<close> is never assigned.
  So a call that returns a value under uniform weights had \<open>pred_calc\<close> in
  \<open>{'mean', 'median'}\<close>.
\<close>

theorem predict_unknown_pred_calc_raises:
  "weights self = Uniform \<Longrightarrow> pred_calc \<noteq> ''mean'' \<Longrightarrow> pred_calc \<noteq> ''median'' \<Longrightarrow>
   isl (predict lib self X rmi pred_calc)"
proof -
  assume u: "weights self = Uniform" and m: "pred_calc \<noteq> ''mean''" "pred_calc \<noteq> ''median''"
  have agg: "knn_aggregate self nd ni (get_weights nd (weights self)) pred_calc = Inr None"
    for nd ni
    using u m by (simp add: knn_aggregate_def get_weights_def Let_def)
  show ?thesis
  proof (cases "check_array lib X")
    case (Inl e)
    then show ?thesis by (simp add: predict_def)
  next
    case (Inr X')
    show ?thesis
    proof (cases "kneighbors lib self X'")
      case (Inl e)
      with Inr show ?thesis by (simp add: predict_def)
    next
      case knn: (Inr p)
      obtain nd ni where p: "p = (nd, ni)" by (cases p)
      show ?thesis
      proof (cases "match_index self ni")
        case (Inl e)
        with Inr knn p agg show ?thesis
          by (simp add: predict_def read_local_def)
      next
        case mi: (Inr v)
        with Inr knn p agg show ?thesis
          by (simp add: predict_def read_local_def)
      qed
    qed
  qed
qed

theorem predict_unknown_pred_calc_raises_witness:
  "weights demo_knn = Uniform \<and> ''mode'' \<noteq> ''mean'' \<and> ''mode'' \<noteq> ''median'' \<and>
   isl (predict demo_lib demo_knn [7] False ''mode'') \<and>
   predict demo_lib demo_knn [7] False ''mode'' = Inl UnboundLocalError"
  using predict_unknown_pred_calc_raises [of demo_knn "''mode''" demo_lib "[7]" False]
  by (simp add: demo_knn_def demo_lib_def predict_def knn_aggregate_def get_weights_def
        read_local_def y_ndim_def)

section \<open>KNNRegressor: what a returned prediction is\<close>

lemma predict_Inr_D:
  assumes "predict lib self X0 rmi pc = Inr r"
  shows "\<exists>X nd ni p. check_array lib X0 = Inr X \<and> kneighbors lib self X = Inr (nd, ni) \<and>
     knn_aggregate self nd ni (get_weights nd (weights self)) pc = Inr (Some p) \<and>
     y_pred_of r = (if y_ndim (self_y self) = 1 then Arr1 (concat p) else Arr2 p)"
  using assms
  by (auto simp: predict_def on_ok_eq_Inr read_local_def y_pred_of_def
           split: if_splits option.splits prod.splits)

lemma concat_singletons: "concat (map (\<lambda>x. [f x]) xs) = map f xs"
  by (induction xs) simp_all

lemma take_rows2_Inr: "take_rows2 xs idx = Inr yn \<Longrightarrow> yn = map (map (\<lambda>i. xs ! i)) idx"
  by (simp add: take_rows2_def split: if_splits)

lemma uniform_aggregate:
  assumes "knn_aggregate self nd ni None pc = Inr (Some p)"
  shows "(pc = ''mean'' \<or> pc = ''median'') \<and>
     p = map (\<lambda>inds. map (\<lambda>j. (if pc = ''mean'' then np_mean else np_median)
                (map (\<lambda>i. y_2d (self_y self) ! i ! j) inds)) [0..<y_ncols (self_y self)]) ni"
  using assms
  by (auto simp: knn_aggregate_def Let_def on_ok_eq_Inr axis1_cols_def comp_def
           dest!: take_rows2_Inr split: if_splits)

lemma knn_uniform_result:
  assumes ca: "check_array lib X0 = Inr X"
      and kn: "kneighbors lib self X = Inr (nd, ni)"
      and w: "get_weights nd (weights self) = None"
      and pr: "predict lib self X0 rmi pc = Inr r"
  shows "(pc = ''mean'' \<or> pc = ''median'') \<and>
     y_pred_of r =
       (let agg = (if pc = ''mean'' then np_mean else np_median) in
        case self_y self of
          Y1 v \<Rightarrow> Arr1 (map (\<lambda>inds. agg (map (\<lambda>i. v ! i) inds)) ni)
        | Y2 m \<Rightarrow> Arr2 (map (\<lambda>inds. map (\<lambda>j. agg (map (\<lambda>i. m ! i ! j) inds))
                                  [0..<y_ncols (Y2 m)]) ni))"
proof -
  from predict_Inr_D [OF pr] ca kn w obtain p where
    agg: "knn_aggregate self nd ni None pc = Inr (Some p)" and
    yp: "y_pred_of r = (if y_ndim (self_y self) = 1 then Arr1 (concat p) else Arr2 p)"
    by auto
  note u = uniform_aggregate [OF agg]
  show ?thesis
  proof (cases "self_y self")
    case (Y1 v)
    have inr: "list_all (list_all (\<lambda>i. i < length v)) ni"
      using agg Y1
      by (auto simp: knn_aggregate_def Let_def on_ok_eq_Inr take_rows2_def y_2d_def
               split: if_splits)
    have "concat p = map (\<lambda>inds. (if pc = ''mean'' then np_mean else np_median)
              (map (\<lambda>i. v ! i) inds)) ni"
    proof -
      have "p = map (\<lambda>inds. [(if pc = ''mean'' then np_mean else np_median)
                (map (\<lambda>i. map (\<lambda>a. [a]) v ! i ! 0) inds)]) ni"
        using u Y1 by (simp add: y_2d_def y_ncols_def)
      also have "\<dots> = map (\<lambda>inds. [(if pc = ''mean'' then np_mean else np_median)
                (map (\<lambda>i. v ! i) inds)]) ni"
        using inr
        by (auto simp: list_all_iff
              intro!: arg_cong [where f = np_mean] arg_cong [where f = np_median])
      finally show ?thesis by (simp add: concat_singletons)
    qed
    with u yp Y1 show ?thesis by (simp add: y_ndim_def Let_def)
  next
    case (Y2 m)
    with u yp show ?thesis by (simp add: y_ndim_def y_2d_def Let_def)
  qed
qed

lemma predict_no_match_total:
  assumes ca: "check_array lib X0 = Inr X"
      and kn: "kneighbors lib self X = Inr (nd, ni)"
      and w: "get_weights nd (weights self) = None"
      and pc: "pc = ''mean'' \<or> pc = ''median''"
      and rng: "list_all (list_all (\<lambda>i. i < length (y_2d (self_y self)))) ni"
  shows "\<exists>r. predict lib self X0 False pc = Inr r"
proof -
  from pc rng obtain p where "knn_aggregate self nd ni None pc = Inr (Some p)"
    by (auto simp: knn_aggregate_def Let_def take_rows2_def)
  with ca kn w show ?thesis
    by (auto simp: predict_def read_local_def)
qed

text \<open>
  C3. With uniform weighting (\<open>_get_weights\<close> returns \<open>None\<close>) and neighbour indices
  within the training set, \<open>predict\<close> with \<open>pred_calc='mean'\<close> returns, per query,
  \<open>np.mean\<close> of the targets of the neighbours that \<open>kneighbors\<close> returned for it, and
  with \<open>pred_calc='median'\<close> \<open>np.median\<close> of them (per output column when the targets
  are two-dimensional). With \<open>return_match_index=True\<close> the prediction of a returned
  result is the same array.
\<close>

theorem knn_uniform_mean_median:
  assumes ca: "check_array lib X0 = Inr X"
      and kn: "kneighbors lib self X = Inr (nd, ni)"
      and w: "get_weights nd (weights self) = None"
      and pc: "pc = ''mean'' \<or> pc = ''median''"
      and rng: "list_all (list_all (\<lambda>i. i < length (y_2d (self_y self)))) ni"
  shows "(let agg = (if pc = ''mean'' then np_mean else np_median);
              expected = (case self_y self of
                  Y1 v \<Rightarrow> Arr1 (map (\<lambda>inds. agg (map (\<lambda>i. v ! i) inds)) ni)
                | Y2 m \<Rightarrow> Arr2 (map (\<lambda>inds. map (\<lambda>j. agg (map (\<lambda>i. m ! i ! j) inds))
                                          [0..<y_ncols (Y2 m)]) ni))
          in predict lib self X0 False pc = Inr (Pred expected)
           \<and> (\<forall>r. predict lib self X0 True pc = Inr r \<longrightarrow> y_pred_of r = expected))"
proof -
  from predict_no_match_total [OF ca kn w pc rng] obtain r where
    r: "predict lib self X0 False pc = Inr r" by blast
  then have "\<exists>a. r = Pred a"
    by (auto simp: predict_def on_ok_eq_Inr split: prod.splits)
  then obtain a where a: "r = Pred a" ..
  from knn_uniform_result [OF ca kn w r] a r
  have one: "predict lib self X0 False pc = Inr (Pred
       (let agg = (if pc = ''mean'' then np_mean else np_median) in
        case self_y self of
          Y1 v \<Rightarrow> Arr1 (map (\<lambda>inds. agg (map (\<lambda>i. v ! i) inds)) ni)
        | Y2 m \<Rightarrow> Arr2 (map (\<lambda>inds. map (\<lambda>j. agg (map (\<lambda>i. m ! i ! j) inds))
                                  [0..<y_ncols (Y2 m)]) ni)))"
    by (simp add: y_pred_of_def)
  have two: "y_pred_of r' =
       (let agg = (if pc = ''mean'' then np_mean else np_median) in
        case self_y self of
          Y1 v \<Rightarrow> Arr1 (map (\<lambda>inds. agg (map (\<lambda>i. v ! i) inds)) ni)
        | Y2 m \<Rightarrow> Arr2 (map (\<lambda>inds. map (\<lambda>j. agg (map (\<lambda>i. m ! i ! j) inds))
                                  [0..<y_ncols (Y2 m)]) ni))"
    if "predict lib self X0 True pc = Inr r'" for r'
    using knn_uniform_result [OF ca kn w that] by simp
  from one two show ?thesis unfolding Let_def by blast
qed

theorem knn_uniform_mean_median_witness:
  "check_array demo_lib [7::nat] = Inr [7]
   \<and> kneighbors demo_lib demo_knn [7] = Inr ([[1, 2, 3]], [[0, 1, 2]])
   \<and> get_weights [[1, 2, 3]] (weights demo_knn) = None
   \<and> list_all (list_all (\<lambda>i. i < length (y_2d (self_y demo_knn)))) [[0, 1, 2]]
   \<and> predict demo_lib demo_knn [7] False ''mean'' = Inr (Pred (Arr1 [Fin 20]))
   \<and> np_mean [10, 30, 20] = Fin 20"
proof -
  have h1: "check_array demo_lib [7::nat] = Inr [7]" by (simp add: demo_lib_def)
  have h2: "kneighbors demo_lib demo_knn [7] = Inr ([[1, 2, 3]], [[0, 1, 2]])"
    by (simp add: demo_lib_def)
  have h3: "get_weights [[1, 2, 3]] (weights demo_knn) = None"
    by (simp add: get_weights_def demo_knn_def)
  have h4: "''mean'' = ''mean'' \<or> ''mean'' = ''median''" by simp
  have h5: "list_all (list_all (\<lambda>i. i < length (y_2d (self_y demo_knn)))) [[0, 1, 2]]"
    by (simp add: demo_knn_def y_2d_def)
  have h6: "np_mean [10, 30, 20] = Fin 20" by (simp add: np_mean_def)
  from knn_uniform_mean_median [OF h1 h2 h3 h4 h5]
  have "predict demo_lib demo_knn [7] False ''mean'' = Inr (Pred (Arr1 [Fin 20]))"
    by (simp add: demo_knn_def h6 Let_def)
  with h1 h2 h3 h5 h6 show ?thesis by (intro conjI)
qed

section \<open>KNNRegressor: the weighted average\<close>






section \<open>KNNRegressor: the match index\<close>

text \<open>
  C5. The claim: with an odd \<open>n_neighbors\<close> and \<open>return_match_index=True\<close>, \<open>predict\<close>
  also returns, per query, the training index of the neighbour whose target is the
  positional median of the neighbours' targets. On three training points with targets
  10, 30, 20 and the neighbours 0, 1, 2 of the query, that neighbour is 2; \<open>predict\<close>
  returns 0, the first neighbour: \<open>np.argsort\<close> runs along the last axis of
  \<open>_y[neigh_ind]\<close>, which has one cell per output, not one per neighbour.
\<close>

theorem knn_match_index_first_neighbour:
  "predict demo_lib demo_knn [7] True ''median''
     = Inr (PredMatch (Arr1 [Fin 20]) [[0]] [[0, 1, 2]])
   \<and> median_neighbor_spec [10, 30, 20] [0, 1, 2] = 2"
  by (simp add: demo_knn_def demo_lib_def predict_def knn_aggregate_def get_weights_def
        read_local_def y_ndim_def y_2d_def y_ncols_def take_rows2_def axis1_cols_def
        np_median_def match_index_def select_axis1_def argsort_def take_rows_def
        median_neighbor_spec_def)

section \<open>RegressorCV: the out-of-fold vector\<close>

lemma length_write_cells [simp]: "length (write_cells s idx vals) = length s"
  unfolding write_cells_def
  by (induction idx arbitrary: s vals) (auto simp: zip_Cons1 split: list.splits)

lemma write_cells_other: "i \<notin> set idx \<Longrightarrow> write_cells s idx vals ! i = s ! i"
  unfolding write_cells_def
proof (induction idx arbitrary: s vals)
  case Nil
  then show ?case by simp
next
  case (Cons a idx)
  then show ?case by (cases vals) auto
qed

lemma write_cells_at:
  "distinct idx \<Longrightarrow> length vals = length idx \<Longrightarrow> list_all (\<lambda>i. i < length s) idx \<Longrightarrow>
   map (\<lambda>i. write_cells s idx vals ! i) idx = vals"
proof (induction idx arbitrary: s vals)
  case Nil
  then show ?case by simp
next
  case (Cons a idx)
  then obtain v vs where vals: "vals = v # vs" by (cases vals) auto
  have step: "write_cells s (a # idx) vals = write_cells (s[a := v]) idx vs"
    by (simp add: write_cells_def vals)
  have "write_cells (s[a := v]) idx vs ! a = v"
    using Cons.prems by (simp add: write_cells_other)
  moreover have "map (\<lambda>i. write_cells (s[a := v]) idx vs ! i) idx = vs"
    using Cons.prems vals by (intro Cons.IH) auto
  ultimately show ?case unfolding vals [symmetric] step by (simp add: vals)
qed

lemma finite_vals_Some: "finite_vals xs = Some rs \<Longrightarrow> xs = map Fin rs"
  by (induction xs arbitrary: rs rule: finite_vals.induct) auto

lemma take_rows_Inr: "take_rows xs idx = Inr ys \<longleftrightarrow>
   list_all (\<lambda>i. i < length xs) idx \<and> ys = map (\<lambda>i. xs ! i) idx"
  by (auto simp: take_rows_def)

lemma concat_singleton_rows:
  "list_all (\<lambda>r. length r = 1) rows \<Longrightarrow> length (concat rows) = length rows"
  by (induction rows) auto

lemma checked_assign:
  assumes chk: "check_reg_targets yt p = Inr (a, b)"
      and asg: "(case p of Arr1 vs \<Rightarrow> iloc_assign oof te p
                 | Arr2 rows \<Rightarrow> iloc_assign oof te (squeeze2 rows) | _ \<Rightarrow> Inr oof) = Inr oof'"
      and len: "length yt = length te"
  shows "pred_values p = map Fin b \<and> length b = length te \<and> list_all (\<lambda>i. i < length oof) te
         \<and> oof' = write_cells oof te (pred_values p)"
proof (cases p)
  case (Arr0 v)
  with chk show ?thesis by (simp add: check_reg_targets_def)
next
  case (Arr1 vs)
  with chk have "vs = map Fin b" "length vs = length yt"
    by (auto simp: check_reg_targets_def split: if_splits option.splits dest: finite_vals_Some)
  with asg Arr1 len show ?thesis
    by (auto simp: iloc_assign_def pred_values_def split: if_splits)
next
  case (Arr2 rows)
  with chk have b: "concat rows = map Fin b" and l: "length rows = length yt"
    and s: "list_all (\<lambda>r. length r = 1) rows"
    by (auto simp: check_reg_targets_def split: if_splits option.splits dest: finite_vals_Some)
  have lc: "length (concat rows) = length te"
    using concat_singleton_rows [OF s] l len by simp
  have lb: "length b = length te" using lc b by (metis length_map)
  show ?thesis
  proof (cases "length rows = 1")
    case True
    then obtain r where rows: "rows = [r]" by (cases rows) auto
    with s obtain v where r: "r = [v]" by (cases r) auto
    have te1: "length te = 1" using True l len by simp
    have "squeeze2 rows = Arr0 v" by (simp add: squeeze2_def rows r)
    with asg Arr2 te1 b lb show ?thesis
      by (auto simp: iloc_assign_def pred_values_def rows r split: if_splits)
  next
    case False
    then have "squeeze2 rows = Arr1 (concat rows)" using s by (simp add: squeeze2_def)
    with asg Arr2 lc b lb show ?thesis
      by (auto simp: iloc_assign_def pred_values_def split: if_splits)
  qed
next
  case (ArrN n)
  with chk show ?thesis by (simp add: check_reg_targets_def)
qed

lemma fit_fold_D:
  assumes "fit_fold lib self X y yb kw n (tr, te) (oof, res) = Inr (oof', res')"
  shows "\<exists>reg m p b. est_fit lib (base_reg self) (map (\<lambda>i. X ! i) tr) (map (\<lambda>i. y ! i) tr) kw = Inr reg
     \<and> est_predict lib reg (map (\<lambda>i. X ! i) te) = Inr p
     \<and> pred_values p = map Fin b \<and> length b = length te \<and> list_all (\<lambda>i. i < length oof) te
     \<and> oof' = write_cells oof te (pred_values p)
     \<and> append_result res n reg m = Inr res'"
proof -
  from assms obtain reg m p where
    xt: "list_all (\<lambda>i. i < length X) tr" "list_all (\<lambda>i. i < length X) te"
        "list_all (\<lambda>i. i < length y) tr" "list_all (\<lambda>i. i < length y) te" and
    f: "est_fit lib (base_reg self) (map (\<lambda>i. X ! i) tr) (map (\<lambda>i. y ! i) tr) kw = Inr reg" and
    g: "get_reg_metrics lib reg (map (\<lambda>i. X ! i) te) (map (\<lambda>i. y ! i) te) = Inr (m, p)" and
    a: "(case p of Arr1 vs \<Rightarrow> iloc_assign oof te p
                 | Arr2 rows \<Rightarrow> iloc_assign oof te (squeeze2 rows) | _ \<Rightarrow> Inr oof) = Inr oof'" and
    r: "append_result res n reg m = Inr res'"
    by (auto simp: fit_fold_def on_ok_eq_Inr take_rows_Inr)
  from g obtain a' b where
    p: "est_predict lib reg (map (\<lambda>i. X ! i) te) = Inr p" and
    c: "check_reg_targets (map (\<lambda>i. y ! i) te) p = Inr (a', b)"
    by (auto simp: get_reg_metrics_def reg_metrics_def on_ok_eq_Inr)
  from checked_assign [OF c a] have
    "pred_values p = map Fin b \<and> length b = length te \<and> list_all (\<lambda>i. i < length oof) te
       \<and> oof' = write_cells oof te (pred_values p)" by simp
  with f p r show ?thesis by blast
qed


lemma append_result_regs:
  "append_result res n reg m = Inr res' \<Longrightarrow> regs_of res' = regs_of res @ [reg]"
  by (auto simp: append_result_def regs_of_def split: cv_results.splits)

lemma fit_loop_inv:
  assumes "fit_loop lib self X y yb kw n folds (oof, res) = Inr (oof', res')"
      and "distinct (concat (map snd folds))"
  shows "length oof' = length oof
       \<and> (\<forall>i. i \<notin> set (concat (map snd folds)) \<longrightarrow> oof' ! i = oof ! i)
       \<and> (\<exists>new. regs_of res' = regs_of res @ new \<and> length new = length folds
              \<and> (\<forall>f<length folds. fold_written lib (base_reg self) X y kw oof' (folds ! f) (new ! f)))"
  using assms
proof (induction folds arbitrary: n oof res)
  case Nil
  then show ?case by simp
next
  case (Cons fld rest)
  obtain tr te where fld: "fld = (tr, te)" by (cases fld)
  from Cons.prems(1) obtain oof1 res1 where
    f1: "fit_fold lib self X y yb kw n (tr, te) (oof, res) = Inr (oof1, res1)" and
    l1: "fit_loop lib self X y yb kw (Suc n) rest (oof1, res1) = Inr (oof', res')"
    by (auto simp: on_ok_eq_Inr fld)
  from fit_fold_D [OF f1] obtain reg m p b where
    ef: "est_fit lib (base_reg self) (map (\<lambda>i. X ! i) tr) (map (\<lambda>i. y ! i) tr) kw = Inr reg" and
    ep: "est_predict lib reg (map (\<lambda>i. X ! i) te) = Inr p" and
    pv: "pred_values p = map Fin b" and lb: "length b = length te" and
    rng: "list_all (\<lambda>i. i < length oof) te" and
    o1: "oof1 = write_cells oof te (pred_values p)" and
    ar: "append_result res n reg m = Inr res1"
    by blast
  from Cons.prems(2) have dte: "distinct te" and drest: "distinct (concat (map snd rest))"
    and disj: "set te \<inter> set (concat (map snd rest)) = {}"
    by (auto simp: fld)
  from Cons.IH [OF l1 drest] obtain new where
    len: "length oof' = length oof1" and
    same: "\<forall>i. i \<notin> set (concat (map snd rest)) \<longrightarrow> oof' ! i = oof1 ! i" and
    regs: "regs_of res' = regs_of res1 @ new" and ln: "length new = length rest" and
    fw: "\<forall>f<length rest. fold_written lib (base_reg self) X y kw oof' (rest ! f) (new ! f)"
    by blast
  have lo: "length oof' = length oof" using len o1 by simp
  have at: "map (\<lambda>i. oof1 ! i) te = map Fin b"
    using write_cells_at [OF dte _ rng, of "pred_values p"] lb pv o1 by simp
  have "map (\<lambda>i. oof' ! i) te = map (\<lambda>i. oof1 ! i) te"
    using same disj by auto
  with at have at': "map (\<lambda>i. oof' ! i) te = map Fin b" by simp
  have rng': "list_all (\<lambda>i. i < length oof') te" using rng lo by simp
  have first: "fold_written lib (base_reg self) X y kw oof' (tr, te) reg"
    unfolding fold_written_def using ef ep pv lb rng' at' by auto
  have unch: "\<forall>i. i \<notin> set (concat (map snd (fld # rest))) \<longrightarrow> oof' ! i = oof ! i"
    using same o1 by (auto simp: fld write_cells_other)
  have r: "regs_of res' = regs_of res @ (reg # new)"
    using regs append_result_regs [OF ar] by simp
  have all: "\<forall>f<length (fld # rest).
      fold_written lib (base_reg self) X y kw oof' ((fld # rest) ! f) ((reg # new) ! f)"
    using first fw by (auto simp: fld nth_Cons split: nat.splits)
  have "regs_of res' = regs_of res @ (reg # new) \<and> length (reg # new) = length (fld # rest)
      \<and> (\<forall>f<length (fld # rest).
      fold_written lib (base_reg self) X y kw oof' ((fld # rest) ! f) ((reg # new) ! f))"
    using r ln all by simp
  then have ex: "\<exists>new. regs_of res' = regs_of res @ new \<and> length new = length (fld # rest)
      \<and> (\<forall>f<length (fld # rest).
      fold_written lib (base_reg self) X y kw oof' ((fld # rest) ! f) (new ! f))"
    by (rule exI)
  from lo unch ex show ?case by (intro conjI)
qed


lemma convert_report_regs:
  "convert_report_to_df res = Inr frame \<Longrightarrow> regs_of frame = regs_of res"
proof -
  have z: "length fs = length ms \<Longrightarrow> length rs = length ms \<Longrightarrow>
     map (\<lambda>(f, r, m). r) (zip fs (zip rs ms)) = rs"
    for fs :: "nat list" and rs :: "'a list" and ms :: "metric_triple list"
  proof (induction fs arbitrary: rs ms)
    case Nil
    then show ?case by simp
  next
    case (Cons f fs)
    then show ?case by (cases rs; cases ms) auto
  qed
  assume "convert_report_to_df res = Inr frame"
  then show ?thesis
    by (auto simp: convert_report_to_df_def regs_of_def z split: cv_results.splits if_splits)
qed

lemma UN_nth: "(\<Union>i<length xs. g (xs ! i)) = (\<Union>x\<in>set xs. g x)"
proof -
  have "set xs = (\<lambda>i. xs ! i) ` {..<length xs}"
    by (auto simp: set_conv_nth)
  then have "(\<Union>x\<in>set xs. g x) = (\<Union>x\<in>(\<lambda>i. xs ! i) ` {..<length xs}. g x)"
    by simp
  then show ?thesis by (simp only: UN_simps image_image)
qed

lemma distinct_concat_disjoint:
  "distinct (concat xss) \<Longrightarrow> f < g \<Longrightarrow> g < length xss \<Longrightarrow> set (xss ! f) \<inter> set (xss ! g) = {}"
proof (induction xss arbitrary: f g)
  case Nil
  then show ?case by simp
next
  case (Cons xs xss)
  show ?case
  proof (cases f)
    case 0
    with Cons.prems obtain g' where g: "g = Suc g'" "g' < length xss" by (cases g) auto
    then have "set (xss ! g') \<subseteq> \<Union> (set ` set xss)" by (auto intro: nth_mem)
    with Cons.prems(1) 0 g show ?thesis by auto
  next
    case (Suc f')
    with Cons.prems obtain g' where g: "g = Suc g'" "g' < length xss" "f' < g'" by (cases g) auto
    with Cons.prems(1) Cons.IH [of f' g'] Suc show ?thesis by simp
  qed
qed

lemma fit_Inr_D:
  assumes "fit lib self X y kw = Inr self'"
  shows "\<exists>yb folds oof res frame m. cv_split lib self X y = Inr (yb, folds)
     \<and> fit_loop lib self X y yb kw 0 folds (replicate (length y) NaN, cv_results self) = Inr (oof, res)
     \<and> convert_report_to_df res = Inr frame
     \<and> reg_metrics lib y (Arr1 oof) = Inr m
     \<and> oof_train self' = Some oof \<and> cv_results self' = frame"
  using assms
  by (auto simp: fit_def on_ok_eq_Inr get_metrics_summary_def Let_def
           split: prod.splits cv_results.splits)

text \<open>
  C1. When \<open>fit\<close> of \<open>RegressorCV\<close> returns and the test index arrays of the folds that
  the splitter yielded partition the sample positions (every position of \<open>y\<close> occurs in
  exactly one of them, once), the out-of-fold vector \<open>oof_train_\<close> has one entry per
  sample and none is missing (NaN); every sample lies in the test set of exactly one fold;
  the entry of each test position of a fold is the value that the fold's stored
  estimator predicts for that row; and the test sets cover all positions without overlap.
\<close>

theorem fit_oof_written_once:
  assumes ft: "fit lib self X y kw = Inr self'"
      and sp: "cv_split lib self X y = Inr (yb, folds)"
      and dis: "distinct (concat (map snd folds))"
      and cov: "set (concat (map snd folds)) = {0..<length y}"
  shows "\<exists>oof. oof_train self' = Some oof \<and> length oof = length y
     \<and> list_all (\<lambda>v. v \<noteq> NaN) oof
     \<and> (\<forall>i<length y. \<exists>!f. f < length folds \<and> i \<in> set (snd (folds ! f)))
     \<and> (\<forall>f<length folds. fold_written lib (base_reg self) X y kw oof (folds ! f)
            (regs_of (cv_results self') ! (length (regs_of (cv_results self)) + f)))
     \<and> (\<Union>f<length folds. set (snd (folds ! f))) = {0..<length y}
     \<and> (\<forall>f<length folds. \<forall>g<length folds. f \<noteq> g \<longrightarrow>
            set (snd (folds ! f)) \<inter> set (snd (folds ! g)) = {})"
proof -
  from fit_Inr_D [OF ft] sp obtain oof res frame m where
    lp: "fit_loop lib self X y yb kw 0 folds (replicate (length y) NaN, cv_results self)
           = Inr (oof, res)" and
    cr: "convert_report_to_df res = Inr frame" and
    rm: "reg_metrics lib y (Arr1 oof) = Inr m" and
    ot: "oof_train self' = Some oof" and cf: "cv_results self' = frame"
    by auto
  from fit_loop_inv [OF lp dis] obtain new where
    len: "length oof = length y" and
    regs: "regs_of res = regs_of (cv_results self) @ new" and
    fw: "\<forall>f<length folds. fold_written lib (base_reg self) X y kw oof (folds ! f) (new ! f)"
    by auto
  from rm obtain a b where "check_reg_targets y (Arr1 oof) = Inr (a, b)"
    by (auto simp: reg_metrics_def on_ok_eq_Inr)
  then have "oof = map Fin b"
    by (auto simp: check_reg_targets_def split: if_splits option.splits dest: finite_vals_Some)
  then have nn: "list_all (\<lambda>v. v \<noteq> NaN) oof" by (simp add: list_all_iff)
  have disj: "set (snd (folds ! f)) \<inter> set (snd (folds ! g)) = {}"
    if "f < length folds" "g < length folds" "f \<noteq> g" for f g
  proof -
    have d: "set (map snd folds ! f') \<inter> set (map snd folds ! g') = {}"
      if "f' < g'" "g' < length folds" for f' g'
      using distinct_concat_disjoint [OF dis, of f' g'] that by simp
    from that consider "f < g" | "g < f" by linarith
    then show ?thesis
    proof cases
      case 1
      with d [of f g] that show ?thesis by simp
    next
      case 2
      with d [of g f] that show ?thesis by (simp add: Int_commute)
    qed
  qed
  have un: "(\<Union>f<length folds. set (snd (folds ! f))) = {0..<length y}"
  proof -
    have "(\<Union>p\<in>set folds. set (snd p)) = (\<Union>f<length folds. set (snd (folds ! f)))"
      by (rule UN_nth [symmetric])
    then have "(\<Union>f<length folds. set (snd (folds ! f))) = set (concat (map snd folds))"
      by simp
    with cov show ?thesis by simp
  qed
  have uniq: "\<exists>!f. f < length folds \<and> i \<in> set (snd (folds ! f))" if "i < length y" for i
  proof -
    from that have "i \<in> {0..<length y}" by simp
    with un have "i \<in> (\<Union>f<length folds. set (snd (folds ! f)))" by simp
    then obtain f where f: "f < length folds" "i \<in> set (snd (folds ! f))" by auto
    show ?thesis
    proof (rule ex1I [of _ f])
      show "f < length folds \<and> i \<in> set (snd (folds ! f))" using f by simp
    next
      fix g assume g: "g < length folds \<and> i \<in> set (snd (folds ! g))"
      show "g = f"
      proof (rule ccontr)
        assume "g \<noteq> f"
        with disj [of g f] g f show False by auto
      qed
    qed
  qed
  have stored: "regs_of (cv_results self') ! (length (regs_of (cv_results self)) + f) = new ! f" for f
    using convert_report_regs [OF cr] cf regs by simp
  show ?thesis
    using ot len nn uniq fw un disj stored by (intro exI [of _ oof] conjI allI impI) simp_all
qed

theorem fit_oof_written_once_witness:
  "fit demo_cv_lib demo_cv [1, 2, 3, 4] [Fin 1, Fin 3, Fin 5, Fin 7] () = Inr demo_cv_fitted
   \<and> cv_split demo_cv_lib demo_cv [1, 2, 3, 4] [Fin 1, Fin 3, Fin 5, Fin 7]
       = Inr (None, [([2, 3], [0, 1]), ([0, 1], [2, 3])])
   \<and> distinct (concat (map snd [([2, 3], [0, 1]), ([0::nat, 1], [2, 3::nat])]))
   \<and> set (concat (map snd [([2, 3], [0, 1]), ([0::nat, 1], [2, 3::nat])]))
       = {0..<length [Fin 1, Fin 3, Fin 5, Fin 7]}
   \<and> oof_train demo_cv_fitted = Some [Fin 7, Fin 8, Fin 5, Fin 6]
   \<and> (\<exists>oof. oof_train demo_cv_fitted = Some oof \<and> length oof = 4
          \<and> list_all (\<lambda>v. v \<noteq> NaN) oof)"
proof -
  have h1: "fit demo_cv_lib demo_cv [1, 2, 3, 4] [Fin 1, Fin 3, Fin 5, Fin 7] ()
              = Inr demo_cv_fitted"
    by (simp add: fit_def demo_cv_lib_def demo_cv_def demo_cv_fitted_def cv_split_def
          fit_fold_def take_rows_def verbose_checks_def get_reg_metrics_def reg_metrics_def
          check_reg_targets_def iloc_assign_def write_cells_def append_result_def
          convert_report_to_df_def get_metrics_summary_def column_def Let_def
          eval_nat_numeral)
  have h2: "cv_split demo_cv_lib demo_cv [1, 2, 3, 4] [Fin 1, Fin 3, Fin 5, Fin 7]
              = Inr (None, [([2, 3], [0, 1]), ([0, 1], [2, 3])])"
    by (simp add: cv_split_def demo_cv_lib_def demo_cv_def)
  have h3: "distinct (concat (map snd [([2, 3], [0, 1]), ([0::nat, 1], [2, 3::nat])]))"
    by simp
  have h4: "set (concat (map snd [([2, 3], [0, 1]), ([0::nat, 1], [2, 3::nat])]))
              = {0..<length [Fin 1, Fin 3, Fin 5, Fin 7]}"
    by auto
  have h5: "oof_train demo_cv_fitted = Some [Fin 7, Fin 8, Fin 5, Fin 6]"
    by (simp add: demo_cv_fitted_def)
  from fit_oof_written_once [OF h1 h2 h3 h4]
  have "\<exists>oof. oof_train demo_cv_fitted = Some oof \<and> length oof = 4
          \<and> list_all (\<lambda>v. v \<noteq> NaN) oof"
    by auto
  with h1 h2 h3 h4 h5 show ?thesis by blast
qed

section \<open>RegressorCV: the ensemble prediction\<close>

lemma all_ok_map_Inr: "all_ok (map (\<lambda>m. Inr (g m)) xs) = Inr (map g xs)"
  by (induction xs) simp_all

lemma those_map_Some: "those (map (\<lambda>x. Some (g x)) xs) = Some (map g xs)"
  by (induction xs) simp_all

lemma fsort_finite: "fsort (map Fin rs) = map Fin (sort rs)"
proof -
  have a: "filter (\<lambda>x. x = NInf) (map Fin rs) = []" by (induction rs) auto
  have b: "filter (\<lambda>x. x = PInf) (map Fin rs) = []" by (induction rs) auto
  have c: "List.map_filter (\<lambda>x. case x of Fin r \<Rightarrow> Some r | _ \<Rightarrow> None) (map Fin rs) = rs"
    by (induction rs) (auto simp: List.map_filter_simps)
  show ?thesis by (simp add: fsort_def a b c)
qed

lemma fmedian_finite: "fmedian (map Fin rs) = np_median rs"
proof (cases "rs = []")
  case True
  then show ?thesis by (simp add: fmedian_def np_median_def)
next
  case False
  then have n: "0 < length rs" by simp
  have nn: "\<not> list_ex (\<lambda>x. x = NaN) (map Fin rs)" by (auto simp: list_ex_iff)
  have h: "length rs div 2 < length (sort rs)" using n by simp
  have h': "length rs div 2 - 1 < length (sort rs)" using n by (simp add: less_imp_diff_less)
  show ?thesis
    using n nn h h'
    by (simp add: fmedian_def np_median_def fsort_finite Let_def favg2_def)
qed

text \<open>
  C2. On a fitted \<open>RegressorCV\<close> (\<open>cv_results_\<close> is the DataFrame of the folds),
  \<open>predict\<close> collects one prediction per stored estimator; when these are
  one-dimensional arrays of \<open>n\<close> values it returns, for each sample, \<open>np.median\<close> of the
  sample's values across the folds, which for finite predictions is the median of the
  reals.
\<close>

theorem cv_predict_median:
  assumes fr: "cv_results self = ResultsFrame rows"
      and ps: "map (\<lambda>(f, reg, m). est_predict lib reg X) rows = map (\<lambda>v. Inr (Arr1 v)) ps"
      and ne: "rows \<noteq> []"
      and ln: "list_all (\<lambda>v. length v = n) ps"
  shows "cv_predict lib self X = Inr (Arr1 (map (\<lambda>i. fmedian (map (\<lambda>v. v ! i) ps)) [0..<n]))
       \<and> (ps = map (map Fin) qs \<longrightarrow>
            cv_predict lib self X = Inr (Arr1 (map (\<lambda>i. np_median (map (\<lambda>v. v ! i) qs)) [0..<n])))"
proof -
  from ps ne obtain v vs where pv: "ps = v # vs" by (cases ps) auto
  with ln have lv: "length v = n" by simp
  have "np_median_axis0 (map Arr1 ps)
          = Inr (Arr1 (map (\<lambda>i. fmedian (map (\<lambda>v. v ! i) ps)) [0..<n]))"
  proof -
    have t: "those (map as_arr1 (map Arr1 ps)) = Some ps"
      using those_map_Some [of "\<lambda>x. x" ps] by (simp add: comp_def as_arr1_def)
    have "np_median_axis0 (Arr1 v # map Arr1 vs)
          = Inr (Arr1 (map (\<lambda>i. fmedian (map (\<lambda>v. v ! i) ps)) [0..<n]))"
      using t ln lv unfolding np_median_axis0_def pv by simp
    then show ?thesis by (simp add: pv)
  qed
  moreover have "all_ok (map (\<lambda>(f, reg, m). est_predict lib reg X) rows) = Inr (map Arr1 ps)"
    using all_ok_map_Inr [of Arr1 ps] by (simp add: ps)
  ultimately have first:
    "cv_predict lib self X = Inr (Arr1 (map (\<lambda>i. fmedian (map (\<lambda>v. v ! i) ps)) [0..<n]))"
    by (simp add: cv_predict_def fr)
  have second: "cv_predict lib self X = Inr (Arr1 (map (\<lambda>i. np_median (map (\<lambda>v. v ! i) qs)) [0..<n]))"
    if q: "ps = map (map Fin) qs"
  proof -
    have lq: "\<forall>u\<in>set qs. length u = n" using ln q by (auto simp: list_all_iff)
    have "fmedian (map (\<lambda>v. v ! i) ps) = np_median (map (\<lambda>v. v ! i) qs)" if "i < n" for i
    proof -
      have "map (\<lambda>v. v ! i) ps = map Fin (map (\<lambda>v. v ! i) qs)"
        using lq that by (simp add: q)
      then show ?thesis by (simp only: fmedian_finite)
    qed
    then show ?thesis using first by simp
  qed
  from first second show ?thesis by blast
qed

theorem cv_predict_median_witness:
  "cv_results demo_cv_fitted3
     = ResultsFrame [(0, 0, Fin 0, Fin 0, Fin 0), (1, 1, Fin 0, Fin 0, Fin 0), (2, 8, Fin 0, Fin 0, Fin 0)]
   \<and> map (\<lambda>(f, reg, m). est_predict demo_cv_lib reg [10])
        [(0, 0, Fin 0, Fin 0, Fin 0), (1, 1, Fin 0, Fin 0, Fin 0), (2, 8, Fin 0, Fin 0, Fin 0)]
       = map (\<lambda>v. Inr (Arr1 v)) [[Fin 10], [Fin 11], [Fin 18]]
   \<and> list_all (\<lambda>v. length v = 1) [[Fin 10], [Fin 11], [Fin 18]]
   \<and> cv_predict demo_cv_lib demo_cv_fitted3 [10] = Inr (Arr1 [Fin 11])
   \<and> np_median [10, 11, 18] = Fin 11 \<and> np_mean [10, 11, 18] = Fin 13"
proof -
  have h1: "cv_results demo_cv_fitted3
     = ResultsFrame [(0, 0, Fin 0, Fin 0, Fin 0), (1, 1, Fin 0, Fin 0, Fin 0), (2, 8, Fin 0, Fin 0, Fin 0)]"
    by (simp add: demo_cv_fitted3_def)
  have h2: "map (\<lambda>(f, reg, m). est_predict demo_cv_lib reg [10])
        [(0, 0, Fin 0, Fin 0, Fin 0), (1, 1, Fin 0, Fin 0, Fin 0), (2, 8, Fin 0, Fin 0, Fin 0)]
       = map (\<lambda>v. Inr (Arr1 v)) [[Fin 10], [Fin 11], [Fin 18]]"
    by (simp add: demo_cv_lib_def)
  have h3: "[(0::nat, 0::real, Fin 0, Fin 0, Fin 0), (1, 1, Fin 0, Fin 0, Fin 0),
             (2, 8, Fin 0, Fin 0, Fin 0)] \<noteq> []"
    by simp
  have h4: "list_all (\<lambda>v. length v = 1) [[Fin 10], [Fin 11], [Fin 18]]" by simp
  have h5: "np_median [10, 11, 18] = Fin 11" "np_mean [10, 11, 18] = Fin 13"
    by (simp_all add: np_median_def np_mean_def)
  have h6: "[[Fin 10], [Fin 11], [Fin 18]] = map (map Fin) [[10], [11], [18]]" by simp
  from cv_predict_median [OF h1 h2 h3 h4, of "[[10], [11], [18]]"] h6
  have "cv_predict demo_cv_lib demo_cv_fitted3 [10]
          = Inr (Arr1 (map (\<lambda>i. np_median (map (\<lambda>v. v ! i) [[10], [11], [18]])) [0..<1]))"
    by blast
  then have h7: "cv_predict demo_cv_lib demo_cv_fitted3 [10] = Inr (Arr1 [Fin 11])"
    by (simp add: h5)
  from h1 h2 h4 h5 h7 show ?thesis by (intro conjI)
qed

section \<open>The metrics summary\<close>



section \<open>RegressorTimeSeriesCV: the refit on the full data\<close>

lemma ts_append_regs:
  "ts_append res (n, reg, r) = Inr res' \<Longrightarrow> ts_regs_of res' = ts_regs_of res @ [reg]"
  by (auto simp: ts_append_def ts_regs_of_def split: ts_results.splits)

lemma ts_fit_fold_D:
  assumes "ts_fit_fold lib self X y sw n fld (res, l) = Inr (res', l')"
  shows "\<exists>reg. ts_fold_fitted lib self X y sw fld reg \<and> ts_regs_of res' = ts_regs_of res @ [reg]"
proof -
  obtain tr te where fld: "fld = (tr, te)" by (cases fld)
  from assms obtain swt reg row where
    w: "ts_fold_weights sw tr = Inr swt" and
    f: "est_fit lib (ts_base_reg self) (map (\<lambda>i. X ! i) tr) (map (\<lambda>i. y ! i) tr)
          (ts_fold_kwargs self (map (\<lambda>i. X ! i) te) (map (\<lambda>i. y ! i) te) swt) = Inr reg" and
    a: "ts_append res (n, reg, row) = Inr res'"
    unfolding ts_fit_fold_def fld
    by (auto simp: on_ok_eq_Inr take_rows_Inr)
  from w f have "ts_fold_fitted lib self X y sw fld reg"
    unfolding ts_fold_fitted_def fld by auto
  with ts_append_regs [OF a] show ?thesis by blast
qed

lemma ts_fit_loop_inv:
  assumes "ts_fit_loop lib self X y sw n folds (res, l) = Inr (res', l')"
  shows "\<exists>new. ts_regs_of res' = ts_regs_of res @ new \<and> length new = length folds
           \<and> (\<forall>f<length folds. ts_fold_fitted lib self X y sw (folds ! f) (new ! f))"
  using assms
proof (induction folds arbitrary: n res l)
  case Nil
  then show ?case by simp
next
  case (Cons fld rest)
  from Cons.prems obtain res1 l1 where
    f1: "ts_fit_fold lib self X y sw n fld (res, l) = Inr (res1, l1)" and
    l1: "ts_fit_loop lib self X y sw (Suc n) rest (res1, l1) = Inr (res', l')"
    by (auto simp: on_ok_eq_Inr)
  from ts_fit_fold_D [OF f1] obtain reg where
    ff: "ts_fold_fitted lib self X y sw fld reg" and r1: "ts_regs_of res1 = ts_regs_of res @ [reg]"
    by blast
  from Cons.IH [OF l1] obtain new where
    r2: "ts_regs_of res' = ts_regs_of res1 @ new" and ln: "length new = length rest" and
    fw: "\<forall>f<length rest. ts_fold_fitted lib self X y sw (rest ! f) (new ! f)"
    by blast
  have all: "\<forall>f<length (fld # rest).
      ts_fold_fitted lib self X y sw ((fld # rest) ! f) ((reg # new) ! f)"
    using ff fw by (auto simp: nth_Cons split: nat.splits)
  have "ts_regs_of res' = ts_regs_of res @ (reg # new) \<and> length (reg # new) = length (fld # rest)
      \<and> (\<forall>f<length (fld # rest).
           ts_fold_fitted lib self X y sw ((fld # rest) ! f) ((reg # new) ! f))"
    using r1 r2 ln all by simp
  then show ?case by (rule exI)
qed

lemma ts_fit_Inr_D:
  assumes "ts_fit lib self X y sw = Inr self'"
  shows "\<exists>folds res l frame. split lib (tss self) X NoArg = Inr folds
     \<and> ts_fit_loop lib self X y sw 0 folds (ts_cv_results self, None) = Inr (res, l)
     \<and> ts_convert_report_to_df res = Inr frame
     \<and> est_fit lib (ts_base_reg self) X y (ts_full_kwargs self X y sw) = Inr (ts_base_reg self')
     \<and> ts_cv_results self' = frame"
  using assms
  by (auto simp: ts_fit_def on_ok_eq_Inr ts_get_metrics_summary_def Let_def
           split: prod.splits ts_results.splits)

text \<open>
  C7. When \<open>fit\<close> of \<open>RegressorTimeSeriesCV\<close> returns: the estimator stored for each
  fold is the base estimator as it was before the call (a copy), fitted on the fold's
  training rows; \<open>base_reg\<close> afterwards is that base estimator fitted on the whole of
  \<open>X\<close> and \<open>y\<close>; and \<open>predict\<close> returns what the refitted \<open>base_reg\<close> predicts.
\<close>

theorem ts_fit_refits_base_estimator:
  assumes ft: "ts_fit lib self X y sw = Inr self'"
      and sp: "split lib (tss self) X NoArg = Inr folds"
  shows "est_fit lib (ts_base_reg self) X y (ts_full_kwargs self X y sw) = Inr (ts_base_reg self')
     \<and> (\<exists>new. ts_regs_of (ts_cv_results self') = ts_regs_of (ts_cv_results self) @ new
            \<and> length new = length folds
            \<and> (\<forall>f<length folds. ts_fold_fitted lib self X y sw (folds ! f) (new ! f)))
     \<and> ts_predict lib self' Xn = est_predict lib (ts_base_reg self') Xn"
proof -
  from ts_fit_Inr_D [OF ft] sp obtain res l frame where
    lp: "ts_fit_loop lib self X y sw 0 folds (ts_cv_results self, None) = Inr (res, l)" and
    cr: "ts_convert_report_to_df res = Inr frame" and
    bf: "est_fit lib (ts_base_reg self) X y (ts_full_kwargs self X y sw) = Inr (ts_base_reg self')" and
    cf: "ts_cv_results self' = frame"
    by auto
  from cr have "ts_regs_of frame = ts_regs_of res"
    by (auto simp: ts_convert_report_to_df_def ts_regs_of_def split: ts_results.splits)
  with ts_fit_loop_inv [OF lp] cf bf show ?thesis
    by (simp add: ts_predict_def)
qed

theorem ts_fit_refits_base_estimator_witness:
  "ts_fit demo_ts_lib demo_ts [1, 2, 3] [Fin 1, Fin 3, Fin 5] None = Inr demo_ts_fitted
   \<and> split demo_ts_lib (tss demo_ts) [1, 2, 3] NoArg = Inr [([0], [1]), ([0, 1], [2])]
   \<and> est_fit demo_ts_lib (ts_base_reg demo_ts) [1, 2, 3] [Fin 1, Fin 3, Fin 5]
        (ts_full_kwargs demo_ts [1, 2, 3] [Fin 1, Fin 3, Fin 5] None) = Inr 9
   \<and> ts_base_reg demo_ts_fitted = 9
   \<and> ts_regs_of (ts_cv_results demo_ts_fitted) = [1, 4]
   \<and> ts_predict demo_ts_lib demo_ts_fitted [1, 2] = Inr (Arr1 [Fin 10, Fin 11])"
proof -
  have h1: "ts_fit demo_ts_lib demo_ts [1, 2, 3] [Fin 1, Fin 3, Fin 5] None = Inr demo_ts_fitted"
    by (simp add: ts_fit_def demo_ts_lib_def demo_ts_def demo_ts_fitted_def ts_fit_fold_def
          take_rows_def ts_fold_weights_def ts_fold_kwargs_def ts_full_kwargs_def
          get_reg_metrics_def reg_metrics_def check_reg_targets_def first_of_def last_of_def
          ts_append_def read_local_def ts_convert_report_to_df_def ts_get_metrics_summary_def
          column_def astype_int_def Let_def eval_nat_numeral)
  have h2: "split demo_ts_lib (tss demo_ts) [1, 2, 3] NoArg = Inr [([0], [1]), ([0, 1], [2])]"
    by (simp add: demo_ts_lib_def)
  have h3: "ts_base_reg demo_ts_fitted = 9" "ts_regs_of (ts_cv_results demo_ts_fitted) = [1, 4]"
    by (simp_all add: demo_ts_fitted_def demo_ts_def ts_regs_of_def)
  have h4: "est_predict demo_ts_lib 9 [1, 2] = Inr (Arr1 [Fin 10, Fin 11])"
    by (simp add: demo_ts_lib_def)
  from ts_fit_refits_base_estimator [OF h1 h2, of "[1, 2]"] h1 h2 h3 h4 show ?thesis
    by simp
qed

section \<open>The constructors: the caller's frames\<close>

lemma demo_run:
  "auto_regressor_init demo_auto_lib demo_args [demo_frame] = (Inr demo_auto, demo_store)"
  by (simp add: auto_regressor_init_def demo_auto_lib_def demo_args_def demo_frame_def
        prepare_frames_def then_do_def df_copy_def load_def alloc_def df_getitem_def lift_def
        frame_get_def ret_def df_setitem_def frame_set_def store_at_def df_drop_inplace_def
        frame_drop_def frame_take_def scale_target_step_def scaled_column_def scaler_fit_def
        scaler_transform_def fin_part_def List.map_filter_simps is_inf_def
        get_pipeline_preprocessor_def choose_imputer_def choose_regressor_def Let_def
        power2_eq_square demo_auto_def demo_store_def demo_prep_def)

lemma frame_safeD:
  "frame_safe n c Q \<Longrightarrow> n \<le> length h \<Longrightarrow> c h = (r, h') \<Longrightarrow>
   take n h' = take n h \<and> length h \<le> length h' \<and> (\<forall>x. r = Inr x \<longrightarrow> Q x)"
  unfolding frame_safe_def
  apply (drule spec [of _ h])
  apply simp
  done

lemma frame_safe_ret: "Q x \<Longrightarrow> frame_safe n (ret x) Q"
  by (simp add: frame_safe_def ret_def)

lemma frame_safe_lift: "frame_safe n (lift m) (\<lambda>x. True)"
  by (simp add: frame_safe_def lift_def)

lemma frame_safe_weaken: "frame_safe n c Q \<Longrightarrow> (\<And>x. Q x \<Longrightarrow> R x) \<Longrightarrow> frame_safe n c R"
  by (fastforce simp: frame_safe_def split: prod.splits)

lemma frame_safe_bind:
  assumes c: "frame_safe n c Q" and f: "\<And>x. Q x \<Longrightarrow> frame_safe n (f x) R"
  shows "frame_safe n (then_do c f) R"
  unfolding frame_safe_def
proof (intro allI impI)
  fix h :: store assume n: "n \<le> length h"
  obtain r h1 where ch: "c h = (r, h1)" by (cases "c h")
  from frame_safeD [OF c n ch]
  have k: "take n h1 = take n h" "length h \<le> length h1" "\<forall>x. r = Inr x \<longrightarrow> Q x"
    by simp_all
  show "case then_do c f h of (r, h') \<Rightarrow>
          take n h' = take n h \<and> length h \<le> length h' \<and> (\<forall>x. r = Inr x \<longrightarrow> R x)"
  proof (cases r)
    case (Inl e)
    with ch k show ?thesis by (simp add: then_do_def)
  next
    case (Inr x)
    with k have "Q x" by simp
    from f [OF this] have fs: "frame_safe n (f x) R" .
    obtain r2 h2 where fh: "f x h1 = (r2, h2)" by (cases "f x h1")
    have n1: "n \<le> length h1" using n k by simp
    from frame_safeD [OF fs n1 fh]
    have "take n h2 = take n h1" "length h1 \<le> length h2" "\<forall>y. r2 = Inr y \<longrightarrow> R y"
      by simp_all
    with k ch Inr fh show ?thesis by (simp add: then_do_def)
  qed
qed

lemma frame_safe_alloc: "frame_safe n (alloc df) (\<lambda>a. n \<le> a)"
  by (simp add: frame_safe_def alloc_def)

lemma frame_safe_load: "frame_safe n (load a) (\<lambda>x. True)"
  by (simp add: frame_safe_def load_def)

lemma frame_safe_store_at: "n \<le> a \<Longrightarrow> frame_safe n (store_at a df) (\<lambda>x. True)"
  by (simp add: frame_safe_def store_at_def)

lemma frame_safe_df_copy: "frame_safe n (df_copy a) (\<lambda>r. n \<le> r)"
  unfolding df_copy_def by (rule frame_safe_bind [OF frame_safe_load frame_safe_alloc])

lemma frame_safe_df_getitem: "frame_safe n (df_getitem a c) (\<lambda>x. True)"
  unfolding df_getitem_def by (rule frame_safe_bind [OF frame_safe_load frame_safe_lift])

lemma frame_safe_df_setitem: "n \<le> a \<Longrightarrow> frame_safe n (df_setitem a c vs) (\<lambda>x. True)"
  unfolding df_setitem_def
  by (intro frame_safe_bind [OF frame_safe_load] frame_safe_bind [OF frame_safe_lift]
        frame_safe_store_at)

lemma frame_safe_df_drop: "n \<le> a \<Longrightarrow> frame_safe n (df_drop_inplace a c) (\<lambda>x. True)"
  unfolding df_drop_inplace_def
  by (intro frame_safe_bind [OF frame_safe_load] frame_safe_bind [OF frame_safe_lift]
        frame_safe_store_at)

lemma frame_safe_pd_concat: "frame_safe n (pd_concat a b) (\<lambda>r. n \<le> r)"
  unfolding pd_concat_def
  by (intro frame_safe_bind [OF frame_safe_load] frame_safe_alloc)

lemma frame_safe_lift_any: "frame_safe n (lift (Inl e)) Q"
  by (simp add: frame_safe_def lift_def)

lemma frame_safe_copy_arg: "frame_safe n (copy_arg a) (\<lambda>r. n \<le> r)"
  unfolding copy_arg_def
  by (cases a) (simp_all add: frame_safe_df_copy frame_safe_lift_any)

lemma frame_safe_rename_target: "n \<le> a \<Longrightarrow> frame_safe n (rename_target a c) (\<lambda>x. True)"
  unfolding rename_target_def
  by (intro frame_safe_bind [OF frame_safe_df_getitem] frame_safe_bind [OF frame_safe_df_setitem]
        frame_safe_df_drop)

lemma frame_safe_prepare_frames:
  "frame_safe n (prepare_frames lib tc lg rs d0 tr0 te0) (\<lambda>(d, tr, te). n \<le> d \<and> n \<le> tr \<and> n \<le> te)"
proof (cases d0)
  case (Some a)
  show ?thesis
    unfolding prepare_frames_def Some option.case
    apply (rule frame_safe_bind [OF frame_safe_df_copy])
    apply (rule frame_safe_bind [OF frame_safe_df_getitem])
    apply (rule frame_safe_bind [where Q = "\<lambda>x. True"])
     apply (simp add: frame_safe_lift frame_safe_ret)
    apply (rule frame_safe_bind [OF frame_safe_df_setitem], assumption)
    apply (rule frame_safe_bind [OF frame_safe_df_drop], assumption)
    apply (rule frame_safe_bind [OF frame_safe_load])
    apply (rule frame_safe_bind [OF frame_safe_lift])
    apply (simp only: split_paired_all prod.case)
    apply (rule frame_safe_bind [OF frame_safe_lift])
    apply (rule frame_safe_bind [OF frame_safe_lift])
    apply (rule frame_safe_bind [OF frame_safe_alloc])
    apply (rule frame_safe_bind [OF frame_safe_alloc])
    apply (rule frame_safe_ret)
    apply simp
    done
next
  case None
  show ?thesis
    unfolding prepare_frames_def None option.case
    apply (rule frame_safe_bind [OF frame_safe_copy_arg])
    apply (rule frame_safe_bind [OF frame_safe_rename_target], assumption)
    apply (rule frame_safe_bind [OF frame_safe_copy_arg])
    apply (rule frame_safe_bind [OF frame_safe_rename_target], assumption)
    apply (rule frame_safe_bind [where Q = "\<lambda>r. n \<le> r"])
     apply (auto split: option.splits intro: frame_safe_pd_concat frame_safe_lift_any)[1]
    apply (rule frame_safe_ret)
    apply simp
    done
qed

lemma frame_safe_scaled_column: "n \<le> a \<Longrightarrow> frame_safe n (scaled_column sc a) (\<lambda>x. True)"
  unfolding scaled_column_def
  by (intro frame_safe_bind [OF frame_safe_df_getitem] frame_safe_bind [OF frame_safe_lift]
        frame_safe_df_setitem)

lemma frame_safe_scale_target_step:
  "n \<le> tr \<Longrightarrow> n \<le> te \<Longrightarrow> frame_safe n (scale_target_step b tr te) (\<lambda>x. True)"
  unfolding scale_target_step_def
  by (auto intro!: frame_safe_bind [OF frame_safe_df_getitem] frame_safe_bind [OF frame_safe_lift]
        frame_safe_bind [OF frame_safe_scaled_column] frame_safe_ret)

lemma frame_safe_auto_regressor_init: "frame_safe n (auto_regressor_init lib args) (\<lambda>x. True)"
  unfolding auto_regressor_init_def
  apply (rule frame_safe_bind [OF frame_safe_prepare_frames])
  apply (simp only: split_paired_all prod.case)
  apply (rule frame_safe_bind [OF frame_safe_scale_target_step])
    apply simp
   apply simp
  apply (rule frame_safe_bind [OF frame_safe_lift])
  apply (simp add: Let_def frame_safe_ret)
  done

lemma frame_safe_auto_classifier_init: "frame_safe n (auto_classifier_init lib args) (\<lambda>x. True)"
  unfolding auto_classifier_init_def
  apply (rule frame_safe_bind [OF frame_safe_prepare_frames])
  apply (simp only: split_paired_all prod.case)
  apply (rule frame_safe_bind [OF frame_safe_lift])
  apply (simp add: Let_def frame_safe_ret)
  done

lemma frame_safe_take: "frame_safe (length h) c Q \<Longrightarrow> take (length h) (snd (c h)) = h"
proof -
  assume fs: "frame_safe (length h) c Q"
  obtain r h' where ch: "c h = (r, h')" by (cases "c h")
  from frame_safeD [OF fs _ ch] show ?thesis by (simp add: ch)
qed

text \<open>
  C10. Constructing an \<open>AutoRegressor\<close> or an \<open>AutoClassifier\<close> leaves every DataFrame
  that existed before the call as it was, whether the constructor returns or raises: the
  first \<open>length h\<close> objects of the store afterwards are the store \<open>h\<close> before. The
  caller's \<open>data\<close>, \<open>train\<close> and \<open>test\<close> are among them; every write goes to a copy.
\<close>

theorem constructors_leave_callers_frames:
  "take (length h) (snd (auto_regressor_init lib args h)) = h
   \<and> take (length h) (snd (auto_classifier_init lib args h)) = h"
proof
  show "take (length h) (snd (auto_regressor_init lib args h)) = h"
    by (rule frame_safe_take [OF frame_safe_auto_regressor_init])
  show "take (length h) (snd (auto_classifier_init lib args h)) = h"
    by (rule frame_safe_take [OF frame_safe_auto_classifier_init])
qed

theorem constructors_leave_callers_frames_witness:
  "auto_regressor_init demo_auto_lib demo_args [demo_frame] = (Inr demo_auto, demo_store)
   \<and> take (length [demo_frame]) demo_store = [demo_frame]
   \<and> demo_store ! 0 = demo_frame"
proof -
  from constructors_leave_callers_frames [of "[demo_frame]" demo_auto_lib demo_args]
  have "take (length [demo_frame]) demo_store = [demo_frame]"
    by (simp add: demo_run)
  moreover have "demo_store ! 0 = demo_frame" by (simp add: demo_store_def)
  ultimately show ?thesis using demo_run by simp
qed

section \<open>AutoRegressor: target scaling\<close>

lemma then_do_Inr:
  "then_do c f h = (Inr y, h') \<longleftrightarrow> (\<exists>x h1. c h = (Inr x, h1) \<and> f x h1 = (Inr y, h'))"
  by (auto simp: then_do_def split: prod.splits sum.splits)

lemma ret_Inr: "ret x h = (Inr y, h') \<longleftrightarrow> y = x \<and> h' = h"
  by (auto simp: ret_def)

lemma lift_Inr: "lift m h = (Inr x, h') \<longleftrightarrow> m = Inr x \<and> h' = h"
  by (auto simp: lift_def)

lemma alloc_Inr: "alloc df h = (Inr a, h') \<longleftrightarrow> a = length h \<and> h' = h @ [df]"
  by (auto simp: alloc_def)

lemma load_Inr: "load a h = (Inr df, h') \<longleftrightarrow> a < length h \<and> df = h ! a \<and> h' = h"
  by (auto simp: load_def)

lemma store_at_Inr: "store_at a df h = (Inr u, h') \<longleftrightarrow> a < length h \<and> h' = h[a := df]"
  by (auto simp: store_at_def)

lemma df_copy_Inr:
  "df_copy a h = (Inr r, h') \<longleftrightarrow> a < length h \<and> r = length h \<and> h' = h @ [h ! a]"
  by (auto simp: df_copy_def then_do_Inr load_Inr alloc_Inr)

lemma df_getitem_Inr:
  "df_getitem a c h = (Inr v, h') \<longleftrightarrow> a < length h \<and> frame_get (h ! a) c = Inr v \<and> h' = h"
  by (auto simp: df_getitem_def then_do_Inr load_Inr lift_Inr)

lemma df_setitem_Inr:
  "df_setitem a c vs h = (Inr u, h') \<longleftrightarrow>
     a < length h \<and> (\<exists>df. frame_set (h ! a) c vs = Inr df \<and> h' = h[a := df])"
  by (auto simp: df_setitem_def then_do_Inr load_Inr lift_Inr store_at_Inr)

lemma df_drop_Inr:
  "df_drop_inplace a c h = (Inr u, h') \<longleftrightarrow>
     a < length h \<and> (\<exists>df. frame_drop (h ! a) c = Inr df \<and> h' = h[a := df])"
  by (auto simp: df_drop_inplace_def then_do_Inr load_Inr lift_Inr store_at_Inr)

lemma pd_concat_Inr:
  "pd_concat a b h = (Inr r, h') \<longleftrightarrow>
     a < length h \<and> b < length h \<and> r = length h \<and> h' = h @ [frame_concat (h ! a) (h ! b)]"
  by (auto simp: pd_concat_def then_do_Inr load_Inr alloc_Inr)

lemma rename_target_Inr:
  "rename_target a c h = (Inr u, h') \<Longrightarrow> a < length h \<and> length h' = length h"
  by (auto simp: rename_target_def then_do_Inr df_getitem_Inr df_setitem_Inr df_drop_Inr)

lemma copy_arg_Inr:
  "copy_arg a h = (Inr r, h') \<Longrightarrow> r = length h \<and> length h' = Suc (length h)"
  by (cases a) (auto simp: copy_arg_def lift_Inr df_copy_Inr)

lemma prepare_frames_refs:
  assumes "prepare_frames lib tc lg rs d0 tr0 te0 h = (Inr (d, tr, te), h1)"
  shows "tr \<noteq> te \<and> tr < length h1 \<and> te < length h1"
proof (cases d0)
  case (Some a)
  with assms show ?thesis
    by (auto simp: prepare_frames_def then_do_Inr ret_Inr lift_Inr alloc_Inr load_Inr
             split: if_splits)
next
  case None
  with assms obtain h2 h3 h4 h5 u1 u2 where
    c1: "copy_arg tr0 h = (Inr tr, h2)" and r1: "rename_target tr tc h2 = (Inr u1, h3)" and
    c2: "copy_arg te0 h3 = (Inr te, h4)" and r2: "rename_target te tc h4 = (Inr u2, h5)" and
    cc: "(case (tr0, te0) of (Some a, Some b) \<Rightarrow> pd_concat a b | _ \<Rightarrow> lift (Inl TypeError)) h5
           = (Inr d, h1)"
    by (auto simp: prepare_frames_def then_do_Inr ret_Inr)
  from cc have l1: "length h5 \<le> length h1"
    by (auto simp: pd_concat_Inr lift_Inr split: option.splits)
  from copy_arg_Inr [OF c1] rename_target_Inr [OF r1] copy_arg_Inr [OF c2]
       rename_target_Inr [OF r2] l1
  show ?thesis by auto
qed

lemma frame_get_set: "frame_set df c vs = Inr df' \<Longrightarrow> frame_get df' c = Inr vs"
  by (auto simp: frame_set_def frame_get_def update_conv' split: if_splits)

lemma scaled_column_Inr:
  assumes "scaled_column sc a h = (Inr u, h')"
  shows "\<exists>vals scaled df. a < length h \<and> on_ok (frame_get (h ! a) ''target'') float_values = Inr vals
     \<and> scaler_transform sc vals = Inr scaled \<and> frame_get df ''target'' = Inr (map Num scaled)
     \<and> h' = h[a := df]"
proof -
  from assms obtain col vals scaled df where
    a: "a < length h" and g: "frame_get (h ! a) ''target'' = Inr col" and
    fv: "float_values col = Inr vals" and t: "scaler_transform sc vals = Inr scaled" and
    fs: "frame_set (h ! a) ''target'' (map Num scaled) = Inr df" and h': "h' = h[a := df]"
    by (auto simp: scaled_column_def then_do_Inr df_getitem_Inr lift_Inr df_setitem_Inr)
  from g fv have "on_ok (frame_get (h ! a) ''target'') float_values = Inr vals" by simp
  with a t frame_get_set [OF fs] h' show ?thesis by blast
qed

lemma scale_target_step_Inr:
  assumes st: "scale_target_step True tr te h = (Inr r, h')"
      and ne: "tr \<noteq> te" and vt: "tr < length h" "te < length h"
  shows "\<exists>sc t_train t_test z_train z_test. r = Some sc
     \<and> on_ok (frame_get (h ! tr) ''target'') float_values = Inr t_train
     \<and> on_ok (frame_get (h ! te) ''target'') float_values = Inr t_test
     \<and> scaler_fit t_train = Inr sc
     \<and> scaler_transform sc t_train = Inr z_train \<and> scaler_transform sc t_test = Inr z_test
     \<and> frame_get (h' ! tr) ''target'' = Inr (map Num z_train)
     \<and> frame_get (h' ! te) ''target'' = Inr (map Num z_test)"
proof -
  from st obtain col vals sc h2 u1 u2 where
    g: "frame_get (h ! tr) ''target'' = Inr col" and fv: "float_values col = Inr vals" and
    sf: "scaler_fit vals = Inr sc" and
    s1: "scaled_column sc tr h = (Inr u1, h2)" and
    s2: "scaled_column sc te h2 = (Inr u2, h')" and r: "r = Some sc"
    by (auto simp: scale_target_step_def then_do_Inr df_getitem_Inr lift_Inr ret_Inr)
  from scaled_column_Inr [OF s1] obtain vals1 z1 df1 where
    a1: "on_ok (frame_get (h ! tr) ''target'') float_values = Inr vals1"
        "scaler_transform sc vals1 = Inr z1" "frame_get df1 ''target'' = Inr (map Num z1)"
        "h2 = h[tr := df1]"
    by blast
  from scaled_column_Inr [OF s2] obtain vals2 z2 df2 where
    a2: "on_ok (frame_get (h2 ! te) ''target'') float_values = Inr vals2"
        "scaler_transform sc vals2 = Inr z2" "frame_get df2 ''target'' = Inr (map Num z2)"
        "h' = h2[te := df2]"
    by blast
  have v1: "vals1 = vals" using a1(1) g fv by simp
  have e1: "h2 ! te = h ! te" using a1(4) ne by simp
  have e2: "h' ! tr = df1" using a1(4) a2(4) ne vt by simp
  have e3: "h' ! te = df2" using a1(4) a2(4) vt by simp
  show ?thesis
    using r a1 a2 v1 e1 e2 e3 sf by auto
qed

lemma fin_part_Cons:
  "fin_part (x # xs) = (case x of Fin r \<Rightarrow> r # fin_part xs | _ \<Rightarrow> fin_part xs)"
  by (cases x) (simp_all add: fin_part_def List.map_filter_simps)

lemma fin_part_Nil [simp]: "fin_part [] = []"
  by (simp add: fin_part_def List.map_filter_simps)

lemma scaler_sigma_nonzero:
  assumes "scaler_fit xs = Inr (Some (mu, sigma))"
  shows "sigma \<noteq> 0 \<and> fin_part xs \<noteq> [] \<and> mu = sum_list (fin_part xs) / real (length (fin_part xs))"
  using assms by (auto simp: scaler_fit_def Let_def split: if_splits)

lemma scaler_roundtrip:
  assumes sg: "sigma \<noteq> 0" and tr: "scaler_transform (Some (mu, sigma)) ys = Inr zs"
  shows "scaler_inverse_transform (Some (mu, sigma)) zs = Inr ys"
proof -
  from tr have ne: "ys \<noteq> []" and ni: "\<not> list_ex is_inf ys"
    and zs: "zs = map (\<lambda>x. case x of Fin v \<Rightarrow> Fin ((v - mu) / sigma) | _ \<Rightarrow> NaN) ys"
    by (auto simp: scaler_transform_def split: if_splits float64.splits intro!: map_cong)
  have a: "\<not> list_ex is_inf zs"
    by (auto simp: zs list_ex_iff is_inf_def split: float64.splits)
  have b: "map (\<lambda>x. case x of Fin v \<Rightarrow> Fin (v * sigma + mu) | _ \<Rightarrow> NaN) zs = ys"
    using ni sg unfolding zs
    by (induction ys) (auto simp: is_inf_def split: float64.splits)
  have c: "map (\<lambda>x. case (Some (mu, sigma), x) of (Some (m, s), Fin v) \<Rightarrow> Fin (v * s + m) | _ \<Rightarrow> NaN) zs
         = map (\<lambda>x. case x of Fin v \<Rightarrow> Fin (v * sigma + mu) | _ \<Rightarrow> NaN) zs"
    by (auto split: float64.splits)
  from ne have "zs \<noteq> []" by (simp add: zs)
  with a b c show ?thesis by (simp add: scaler_inverse_transform_def)
qed

lemma scaler_roundtrip_train:
  assumes sf: "scaler_fit xs = Inr sc" and tr: "scaler_transform sc xs = Inr zs"
  shows "scaler_inverse_transform sc zs = Inr xs"
proof (cases sc)
  case None
  with sf have fp: "fin_part xs = []" and ni: "\<not> list_ex is_inf xs" and ne: "xs \<noteq> []"
    by (auto simp: scaler_fit_def Let_def split: if_splits)
  have nan: "list_all (\<lambda>x. x = NaN) xs"
    using fp ni
    by (induction xs) (auto simp: fin_part_Cons is_inf_def split: float64.splits)
  from tr None have zs: "zs = map (\<lambda>x. NaN) xs"
    by (auto simp: scaler_transform_def split: if_splits)
  have "map (\<lambda>x. NaN) zs = xs"
    using nan unfolding zs by (induction xs) auto
  moreover have "\<not> list_ex is_inf zs" by (auto simp: zs list_ex_iff is_inf_def)
  ultimately show ?thesis using ne None by (simp add: scaler_inverse_transform_def zs)
next
  case (Some p)
  obtain mu sigma where p: "p = (mu, sigma)" by (cases p)
  from scaler_sigma_nonzero [of xs mu sigma] sf Some p have "sigma \<noteq> 0" by simp
  from scaler_roundtrip [OF this] tr Some p show ?thesis by simp
qed

lemma sum_list_shift:
  "sum_list (map (\<lambda>v. (v - mu) / sigma) (fs :: real list))
     = (sum_list fs - real (length fs) * mu) / sigma"
  by (induction fs) (simp_all add: diff_divide_distrib add_divide_distrib algebra_simps)

lemma scaler_mean_zero:
  assumes sf: "scaler_fit xs = Inr sc" and tr: "scaler_transform sc xs = Inr zs"
  shows "sum_list (fin_part zs) = 0"
proof (cases sc)
  case None
  with tr have "zs = map (\<lambda>x. NaN) xs"
    by (auto simp: scaler_transform_def split: if_splits)
  moreover have "fin_part (map (\<lambda>x. NaN) xs) = []"
    by (induction xs) (simp_all add: fin_part_Cons)
  ultimately show ?thesis by simp
next
  case (Some p)
  obtain mu sigma where p: "p = (mu, sigma)" by (cases p)
  from scaler_sigma_nonzero [of xs mu sigma] sf Some p have
    sg: "sigma \<noteq> 0" and ne: "fin_part xs \<noteq> []" and
    mu: "mu = sum_list (fin_part xs) / real (length (fin_part xs))" by simp_all
  from tr Some p have zs: "zs = map (\<lambda>x. case x of Fin v \<Rightarrow> Fin ((v - mu) / sigma) | _ \<Rightarrow> NaN) xs"
    by (auto simp: scaler_transform_def split: if_splits float64.splits intro!: map_cong)
  have "fin_part zs = map (\<lambda>v. (v - mu) / sigma) (fin_part xs)"
    unfolding zs by (induction xs) (auto simp: fin_part_Cons split: float64.splits)
  then have "sum_list (fin_part zs) = (sum_list (fin_part xs) - real (length (fin_part xs)) * mu) / sigma"
    by (simp add: sum_list_shift)
  also have "\<dots> = 0" using ne by (simp add: mu)
  finally show ?thesis .
qed


lemma fin_part_map_Fin:
  "fin_part (map (\<lambda>x. case x of Fin v \<Rightarrow> Fin (f v) | _ \<Rightarrow> NaN) xs) = map f (fin_part xs)"
  by (induction xs) (auto simp: fin_part_Cons split: float64.splits)

lemma sum_list_sq_zero:
  "sum_list (map (\<lambda>x. (x - mu)\<^sup>2) (fs :: real list)) = 0 \<Longrightarrow> \<forall>x\<in>set fs. x = mu"
proof (induction fs)
  case Nil
  then show ?case by simp
next
  case (Cons a fs)
  have nn: "0 \<le> sum_list (map (\<lambda>x. (x - mu)\<^sup>2) fs)"
    by (rule sum_list_nonneg) auto
  from Cons.prems have s: "(a - mu)\<^sup>2 + sum_list (map (\<lambda>x. (x - mu)\<^sup>2) fs) = 0" by simp
  have a0: "(a - mu)\<^sup>2 = 0" and r0: "sum_list (map (\<lambda>x. (x - mu)\<^sup>2) fs) = 0"
    using s nn zero_le_power2 [of "a - mu"] by linarith+
  from a0 have "a = mu" by simp
  with Cons.IH [OF r0] show ?case by simp
qed

lemma sum_list_sq_scale:
  "sum_list (map (\<lambda>z. z\<^sup>2) (map (\<lambda>v. (v - mu) / sigma) (fs :: real list)))
     = sum_list (map (\<lambda>x. (x - mu)\<^sup>2) fs) / sigma\<^sup>2"
  by (induction fs) (simp_all add: power_divide add_divide_distrib)

lemma scaler_unit_variance:
  assumes sf: "scaler_fit xs = Inr sc" and tr: "scaler_transform sc xs = Inr zs"
      and two: "\<exists>a\<in>set (fin_part xs). \<exists>b\<in>set (fin_part xs). a \<noteq> b"
  shows "sum_list (map (\<lambda>z. z\<^sup>2) (fin_part zs)) = real (length (fin_part zs))"
proof -
  let ?fs = "fin_part xs"
  let ?n = "real (length ?fs)"
  from two have ne: "?fs \<noteq> []" by auto
  define mu where "mu = sum_list ?fs / ?n"
  define S where "S = sum_list (map (\<lambda>x. (x - mu)\<^sup>2) ?fs)"
  have S0: "S \<noteq> 0"
  proof
    assume "S = 0"
    then have "\<forall>x\<in>set ?fs. x = mu" unfolding S_def by (rule sum_list_sq_zero)
    with two show False by metis
  qed
  have Snn: "0 \<le> S" unfolding S_def by (rule sum_list_nonneg) auto
  have n0: "?n \<noteq> 0" using ne by simp
  have v0: "S / ?n \<noteq> 0" using S0 n0 by simp
  from sf ne v0 have sc: "sc = Some (mu, sqrt (S / ?n))"
    by (auto simp: scaler_fit_def Let_def mu_def S_def split: if_splits)
  let ?sg = "sqrt (S / ?n)"
  have sg2: "?sg\<^sup>2 = S / ?n" using Snn by simp
  from tr sc have zs: "zs = map (\<lambda>x. case x of Fin v \<Rightarrow> Fin ((v - mu) / ?sg) | _ \<Rightarrow> NaN) xs"
    by (auto simp: scaler_transform_def split: if_splits float64.splits intro!: map_cong)
  have fz: "fin_part zs = map (\<lambda>v. (v - mu) / ?sg) ?fs"
    unfolding zs by (rule fin_part_map_Fin)
  have "sum_list (map (\<lambda>z. z\<^sup>2) (fin_part zs)) = S / ?sg\<^sup>2"
    unfolding fz S_def by (rule sum_list_sq_scale)
  also have "\<dots> = ?n" using S0 n0 by (simp add: sg2)
  also have "?n = real (length (fin_part zs))" by (simp add: fz)
  finally show ?thesis .
qed

lemma auto_regressor_init_Inr:
  assumes "auto_regressor_init lib args h = (Inr inst, h')"
  shows "\<exists>h1 sc. prepare_frames lib (arg_target_col args) (arg_log_target args) (arg_random_st args)
             (arg_data args) (arg_train args) (arg_test args) h
           = (Inr (ar_data inst, ar_train inst, ar_test inst), h1)
     \<and> scale_target_step (arg_scale_target args) (ar_train inst) (ar_test inst) h1 = (Inr sc, h')
     \<and> ar_target_scaler inst = sc"
  using assms
  by (auto simp: auto_regressor_init_def then_do_Inr lift_Inr ret_Inr Let_def)

text \<open>
  C8. When the constructor of \<open>AutoRegressor\<close> returns with \<open>scale_target=True\<close>: the
  instance holds a \<open>StandardScaler\<close> fitted on the \<open>target\<close> column of \<open>self.train\<close> as
  the first block left it; the \<open>target\<close> columns of \<open>self.train\<close> and \<open>self.test\<close> are
  that scaler's transform of what they were; the scaled training target has mean 0 and,
  unless its finite values are all equal, mean square 1; and the scaler's
  \<open>inverse_transform\<close> gives the training target back, and gives back any column that it
  transformed when its statistics are not NaN.
\<close>

theorem scale_target_standardizes:
  assumes init: "auto_regressor_init lib args h = (Inr inst, h')"
      and st: "arg_scale_target args"
  shows "\<exists>h1 sc t_train t_test z_train z_test.
       prepare_frames lib (arg_target_col args) (arg_log_target args) (arg_random_st args)
           (arg_data args) (arg_train args) (arg_test args) h
         = (Inr (ar_data inst, ar_train inst, ar_test inst), h1)
     \<and> on_ok (frame_get (h1 ! ar_train inst) ''target'') float_values = Inr t_train
     \<and> on_ok (frame_get (h1 ! ar_test inst) ''target'') float_values = Inr t_test
     \<and> ar_target_scaler inst = Some sc \<and> scaler_fit t_train = Inr sc
     \<and> scaler_transform sc t_train = Inr z_train \<and> scaler_transform sc t_test = Inr z_test
     \<and> frame_get (h' ! ar_train inst) ''target'' = Inr (map Num z_train)
     \<and> frame_get (h' ! ar_test inst) ''target'' = Inr (map Num z_test)
     \<and> sum_list (fin_part z_train) = 0
     \<and> ((\<exists>a\<in>set (fin_part t_train). \<exists>b\<in>set (fin_part t_train). a \<noteq> b) \<longrightarrow>
          sum_list (map (\<lambda>z. z\<^sup>2) (fin_part z_train)) = real (length (fin_part z_train)))
     \<and> scaler_inverse_transform sc z_train = Inr t_train
     \<and> (\<forall>ys zs. sc \<noteq> None \<and> scaler_transform sc ys = Inr zs \<longrightarrow>
           scaler_inverse_transform sc zs = Inr ys)"
proof -
  from auto_regressor_init_Inr [OF init] st obtain h1 r where
    pf: "prepare_frames lib (arg_target_col args) (arg_log_target args) (arg_random_st args)
           (arg_data args) (arg_train args) (arg_test args) h
         = (Inr (ar_data inst, ar_train inst, ar_test inst), h1)" and
    ss: "scale_target_step True (ar_train inst) (ar_test inst) h1 = (Inr r, h')" and
    ts: "ar_target_scaler inst = r"
    by auto
  from prepare_frames_refs [OF pf] have
    ne: "ar_train inst \<noteq> ar_test inst" and
    vt: "ar_train inst < length h1" "ar_test inst < length h1" by simp_all
  from scale_target_step_Inr [OF ss ne vt] obtain sc t_train t_test z_train z_test where
    k: "r = Some sc"
       "on_ok (frame_get (h1 ! ar_train inst) ''target'') float_values = Inr t_train"
       "on_ok (frame_get (h1 ! ar_test inst) ''target'') float_values = Inr t_test"
       "scaler_fit t_train = Inr sc"
       "scaler_transform sc t_train = Inr z_train" "scaler_transform sc t_test = Inr z_test"
       "frame_get (h' ! ar_train inst) ''target'' = Inr (map Num z_train)"
       "frame_get (h' ! ar_test inst) ''target'' = Inr (map Num z_test)"
    by blast
  have m0: "sum_list (fin_part z_train) = 0"
    by (rule scaler_mean_zero [OF k(4) k(5)])
  have uv: "(\<exists>a\<in>set (fin_part t_train). \<exists>b\<in>set (fin_part t_train). a \<noteq> b) \<longrightarrow>
          sum_list (map (\<lambda>z. z\<^sup>2) (fin_part z_train)) = real (length (fin_part z_train))"
    using scaler_unit_variance [OF k(4) k(5)] by blast
  have rt: "scaler_inverse_transform sc z_train = Inr t_train"
    by (rule scaler_roundtrip_train [OF k(4) k(5)])
  have gen: "\<forall>ys zs. sc \<noteq> None \<and> scaler_transform sc ys = Inr zs \<longrightarrow>
           scaler_inverse_transform sc zs = Inr ys"
  proof (intro allI impI)
    fix ys zs assume a: "sc \<noteq> None \<and> scaler_transform sc ys = Inr zs"
    then obtain mu sigma where sc: "sc = Some (mu, sigma)" by (cases sc) auto
    from scaler_sigma_nonzero [of t_train mu sigma] k(4) sc have "sigma \<noteq> 0" by simp
    from scaler_roundtrip [OF this] a sc show "scaler_inverse_transform sc zs = Inr ys" by simp
  qed
  from pf ts k m0 uv rt gen show ?thesis by blast
qed

theorem scale_target_standardizes_witness:
  "auto_regressor_init demo_auto_lib demo_args [demo_frame] = (Inr demo_auto, demo_store)
   \<and> arg_scale_target demo_args
   \<and> ar_target_scaler demo_auto = Some (Some (2, 1))
   \<and> scaler_fit [Fin 1, Fin 3] = Inr (Some (2, 1))
   \<and> frame_get (demo_store ! ar_train demo_auto) ''target'' = Inr [Num (Fin (- 1)), Num (Fin 1)]
   \<and> frame_get (demo_store ! ar_test demo_auto) ''target'' = Inr [Num (Fin 5)]
   \<and> scaler_inverse_transform (Some (2, 1)) [Fin (- 1), Fin 1] = Inr [Fin 1, Fin 3]
   \<and> (\<exists>sc. ar_target_scaler demo_auto = Some sc)"
proof -
  have h2: "arg_scale_target demo_args" by (simp add: demo_args_def)
  from scale_target_standardizes [OF demo_run h2]
  have e: "\<exists>sc. ar_target_scaler demo_auto = Some sc" by blast
  have a: "ar_target_scaler demo_auto = Some (Some (2, 1))" by (simp add: demo_auto_def)
  have b: "scaler_fit [Fin 1, Fin 3] = Inr (Some (2, 1))"
    by (simp add: scaler_fit_def fin_part_def List.map_filter_simps is_inf_def Let_def
          power2_eq_square)
  have c: "frame_get (demo_store ! ar_train demo_auto) ''target'' = Inr [Num (Fin (- 1)), Num (Fin 1)]"
          "frame_get (demo_store ! ar_test demo_auto) ''target'' = Inr [Num (Fin 5)]"
    by (simp_all add: demo_store_def demo_auto_def frame_get_def)
  have d: "scaler_inverse_transform (Some (2, 1)) [Fin (- 1), Fin 1] = Inr [Fin 1, Fin 3]"
    by (simp add: scaler_inverse_transform_def is_inf_def)
  from demo_run h2 a b c d e show ?thesis by (intro conjI)
qed

end
